theory Spec2Isabelle
  imports Complex_Main
begin

section \<open>Numbers and JavaScript idioms\<close>

text \<open>
  A value that may be \<^verbatim>\<open>null\<close> or \<^verbatim>\<open>undefined\<close> is an \<open>option\<close>.  The idiom
  \<^verbatim>\<open>x || d\<close> on numbers picks \<open>d\<close> when \<open>x\<close> is falsy, and a number
  is falsy exactly when it is zero (or absent).

  Numbers are reals.  In \<open>computeStops\<close> and \<open>calculateCorrelation\<close>, where the result
  turns on a difference of nearly equal quantities, every arithmetic operation of the
  source is followed by the rounding of IEEE binary64 (\<open>binary64\<close> below); elsewhere the
  operations are the exact ones, and every comparison, branch and clamp of the source is
  kept.
\<close>

definition js_or :: "real \<Rightarrow> real \<Rightarrow> real" where
  "js_or x d = (if x = 0 then d else x)"

definition js_or_opt :: "real option \<Rightarrow> real \<Rightarrow> real" where
  "js_or_opt x d = (case x of None \<Rightarrow> d | Some v \<Rightarrow> js_or v d)"

definition truthy :: "real option \<Rightarrow> bool" where
  "truthy x = (case x of None \<Rightarrow> False | Some v \<Rightarrow> v \<noteq> 0)"

text \<open>Destructuring default \<^verbatim>\<open>{ f = d }\<close>: the default applies to an absent field only.\<close>

definition dflt :: "'a option \<Rightarrow> 'a \<Rightarrow> 'a" where
  "dflt x d = (case x of None \<Rightarrow> d | Some v \<Rightarrow> v)"

text \<open>\<^verbatim>\<open>Math.round\<close> rounds half up.\<close>

definition js_round :: "real \<Rightarrow> real" where
  "js_round x = of_int \<lfloor>x + 1 / 2\<rfloor>"

text \<open>\<^verbatim>\<open>arr.reduce((a, b) => f(a, b), init)\<close> is a left fold.\<close>

definition reduce :: "('b \<Rightarrow> 'a \<Rightarrow> 'b) \<Rightarrow> 'b \<Rightarrow> 'a list \<Rightarrow> 'b" where
  "reduce f init arr = foldl f init arr"

subsection \<open>Double-precision arithmetic\<close>

text \<open>
  \<open>rne\<close> rounds a real to the nearest integer, a tie going to the even neighbour.
  \<open>binary64\<close> is the double nearest to a real: the significand has 53 bits, so a number
  of binary exponent \<open>e\<close> is rounded to a multiple of \<open>2 powi (e - 52)\<close>; below the
  smallest normal exponent \<open>- 1022\<close> the spacing stays that of the subnormals.  Overflow to
  \<^verbatim>\<open>Infinity\<close> (a magnitude of \<open>2 ^ 1024\<close> or more) is not modelled.
\<close>

definition rne :: "real \<Rightarrow> int" where
  "rne y =
     (let f = \<lfloor>y\<rfloor>; r = y - of_int f
      in if r < 1 / 2 then f else if 1 / 2 < r then f + 1 else if even f then f else f + 1)"

definition binary64 :: "real \<Rightarrow> real" where
  "binary64 x =
     (if x = 0 then 0
      else
        (let e = max \<lfloor>log 2 \<bar>x\<bar>\<rfloor> (- 1022);
             u = 2 powi (e - 52)
         in of_int (rne (x / u)) * u))"

text \<open>The four operations on doubles, and \<^verbatim>\<open>Math.sqrt\<close>, which is \<^verbatim>\<open>NaN\<close> (\<open>None\<close>) below zero.\<close>

definition fadd :: "real \<Rightarrow> real \<Rightarrow> real" where
  "fadd a b = binary64 (a + b)"

definition fsub :: "real \<Rightarrow> real \<Rightarrow> real" where
  "fsub a b = binary64 (a - b)"

definition fmul :: "real \<Rightarrow> real \<Rightarrow> real" where
  "fmul a b = binary64 (a * b)"

definition fdiv :: "real \<Rightarrow> real \<Rightarrow> real" where
  "fdiv a b = binary64 (a / b)"

definition js_sqrt :: "real \<Rightarrow> real option" where
  "js_sqrt x = (if x < 0 then None else Some (binary64 (sqrt x)))"

section \<open>Configuration (config/trading\_config.js, the \<^verbatim>\<open>trading.risk\<close> block)\<close>

record risk_config =
  maxPositionUsd :: real
  maxDailyLossUsd :: real
  stopLossBps :: real
  takeProfitBps :: real

text \<open>The values used when the environment sets none of the variables.\<close>

definition default_risk :: risk_config where
  "default_risk = \<lparr>maxPositionUsd = 5000, maxDailyLossUsd = 1000,
     stopLossBps = 100, takeProfitBps = 200\<rparr>"

section \<open>Risk manager\<close>

datatype trade_action = buy | sell | hold

record stops =
  stopLoss :: real
  takeProfit :: real

definition capOrderSizeUsd :: "risk_config \<Rightarrow> real \<Rightarrow> real" where
  "capOrderSizeUsd cfg desiredUsd = max 0 (min desiredUsd (maxPositionUsd cfg))"

text \<open>
  \<^verbatim>\<open>shouldHaltTrading({ realizedPnlTodayUsd, drawdownFromPeakPct = 0, circuitBreaker = false })\<close>:
  a caller that omits the two defaulted fields passes \<open>0\<close> and \<open>False\<close>.
\<close>

definition shouldHaltTrading :: "risk_config \<Rightarrow> real \<Rightarrow> real \<Rightarrow> bool \<Rightarrow> bool" where
  "shouldHaltTrading cfg realizedPnlTodayUsd drawdownFromPeakPct circuitBreaker =
     (if circuitBreaker then True
      else if realizedPnlTodayUsd \<le> - \<bar>maxDailyLossUsd cfg\<bar> then True
      else if drawdownFromPeakPct \<ge> 10 then True
      else False)"

text \<open>
  \<^verbatim>\<open>computeStops(entryPrice, side, atrValue)\<close>, in double arithmetic.  The ATR branch
  is taken when both \<^verbatim>\<open>atrValue\<close> and \<^verbatim>\<open>entryPrice\<close> are truthy; every side other
  than \<^verbatim>\<open>'buy'\<close> takes the sell formulas.  The literal \<^verbatim>\<open>1.2\<close> is the double nearest
  to 12/10; \<^verbatim>\<open>2.0\<close> and \<^verbatim>\<open>10000\<close> are doubles.
\<close>

definition bps :: "real \<Rightarrow> real" where
  "bps p = fdiv p 10000"

definition computeStops :: "risk_config \<Rightarrow> real \<Rightarrow> trade_action \<Rightarrow> real option \<Rightarrow> stops" where
  "computeStops cfg entryPrice side atrValue =
     (let slBps = stopLossBps cfg; tpBps = takeProfitBps cfg in
      if truthy atrValue \<and> entryPrice \<noteq> 0 then
        (let a = the atrValue; multSL = binary64 (12 / 10); multTP = 2 in
         if side = buy
         then \<lparr>stopLoss = fsub entryPrice (fmul a multSL),
               takeProfit = fadd entryPrice (fmul a multTP)\<rparr>
         else \<lparr>stopLoss = fadd entryPrice (fmul a multSL),
               takeProfit = fsub entryPrice (fmul a multTP)\<rparr>)
      else
        (if side = buy
         then \<lparr>stopLoss = fmul entryPrice (fsub 1 (bps slBps)),
               takeProfit = fmul entryPrice (fadd 1 (bps tpBps))\<rparr>
         else \<lparr>stopLoss = fmul entryPrice (fadd 1 (bps slBps)),
               takeProfit = fmul entryPrice (fsub 1 (bps tpBps))\<rparr>))"

record regime =
  highVol :: bool
  trending :: bool
  liquid :: bool

definition detectRegime :: "real \<Rightarrow> real \<Rightarrow> real option \<Rightarrow> regime" where
  "detectRegime atrPct emaSlope liquidityScore =
     \<lparr>highVol = (atrPct > 2 / 100),
      trending = (\<bar>emaSlope\<bar> > 5 / 10000),
      liquid = (dflt liquidityScore (1 / 2) > 1 / 2)\<rparr>"

definition kellyFraction :: "real \<Rightarrow> real \<Rightarrow> real" where
  "kellyFraction winProb winLossRatio =
     (let p = max 0 (min 1 winProb);
          R = max (1 / 100) winLossRatio;
          f = p - (1 - p) / R
      in max 0 (min (25 / 100) f))"

definition positionSizeUsd :: "real \<Rightarrow> real \<Rightarrow> real \<Rightarrow> real \<Rightarrow> real" where
  "positionSizeUsd accountEquityUsd confidence atrPct maxRiskPctPerTrade =
     (let volAdj = max (25 / 100) (1 - atrPct / (4 / 100));
          kelly = kellyFraction confidence (15 / 10);
          raw = accountEquityUsd * min maxRiskPctPerTrade kelly * 5
      in raw * volAdj)"

text \<open>
  \<^verbatim>\<open>marketCircuitBreaker({ change1hPct = 0, change5mPct = 0, orderbookImbalance = 0,
  volatilitySpike = false, correlationBreakdown = false })\<close>.
\<close>

definition marketCircuitBreaker :: "real \<Rightarrow> real \<Rightarrow> real \<Rightarrow> bool \<Rightarrow> bool \<Rightarrow> bool" where
  "marketCircuitBreaker change1hPct change5mPct orderbookImbalance volatilitySpike correlationBreakdown =
     (if \<bar>change1hPct\<bar> > 8 then True
      else if \<bar>change5mPct\<bar> > 35 / 10 then True
      else if \<bar>orderbookImbalance\<bar> > 8 / 10 then True
      else if volatilitySpike then True
      else if correlationBreakdown then True
      else False)"

text \<open>
  \<^verbatim>\<open>calculateCorrelation(returns1, returns2)\<close>, in double arithmetic.  Past the length
  guard both arrays have the same length, so \<^verbatim>\<open>returns2[i]\<close> in the last reduce is the
  element paired with \<^verbatim>\<open>val\<close>.  \<open>sumsq_dev\<close> is the factor
  \<^verbatim>\<open>sumSq - sum * sum / n\<close> under the root.  The result is \<open>None\<close> for \<^verbatim>\<open>NaN\<close>: a
  \<^verbatim>\<open>NaN\<close> denominator fails the test \<^verbatim>\<open>den === 0\<close> and makes the quotient
  \<^verbatim>\<open>NaN\<close>.
\<close>

definition sumsq_dev :: "real list \<Rightarrow> real" where
  "sumsq_dev returns =
     fsub (reduce (\<lambda>a b. fadd a (fmul b b)) 0 returns)
          (fdiv (fmul (reduce (\<lambda>a b. fadd a b) 0 returns) (reduce (\<lambda>a b. fadd a b) 0 returns))
                (real (length returns)))"

definition calculateCorrelation :: "real list \<Rightarrow> real list \<Rightarrow> real option" where
  "calculateCorrelation returns1 returns2 =
     (if length returns1 \<noteq> length returns2 \<or> length returns1 < 2 then Some 0
      else
        (let n = real (length returns1);
             sum1 = reduce (\<lambda>a b. fadd a b) 0 returns1;
             sum2 = reduce (\<lambda>a b. fadd a b) 0 returns2;
             pSum = reduce (\<lambda>acc (val, r2). fadd acc (fmul val r2)) 0 (zip returns1 returns2);
             num = fsub pSum (fdiv (fmul sum1 sum2) n)
         in case js_sqrt (fmul (sumsq_dev returns1) (sumsq_dev returns2)) of
              None \<Rightarrow> None
            | Some den \<Rightarrow> if den = 0 then Some 0 else Some (fdiv num den)))"

section \<open>Indicator library (strategies/technical\_analyzer.js)\<close>

record candle =
  c_open :: real
  high :: real
  low :: real
  close :: real
  volume :: real

text \<open>
  \<^verbatim>\<open>ema(values, period)\<close>: the mean of the first \<open>period\<close> values seeds the
  smoothing over the rest; \<^verbatim>\<open>null\<close> below \<open>period\<close> observations.
\<close>

definition ema :: "real list \<Rightarrow> nat \<Rightarrow> real option" where
  "ema values period =
     (if length values < period then None
      else
        (let k = 2 / (real period + 1);
             seed = reduce (\<lambda>a b. a + b) 0 (take period values) / real period
         in Some (foldl (\<lambda>emaPrev v. v * k + emaPrev * (1 - k)) seed (drop period values))))"

text \<open>
  \<^verbatim>\<open>rsi(values, period = 14)\<close>.  \<open>rsi_sums\<close> is the loop over the trailing
  \<open>period\<close> differences, returning \<^verbatim>\<open>(gains, losses)\<close>; the index \<open>i - 1\<close> is in
  range because the length guard has passed.
\<close>

definition rsi_sums :: "real list \<Rightarrow> nat \<Rightarrow> real \<times> real" where
  "rsi_sums values period =
     foldl (\<lambda>(gains, losses) i.
              (let change = values ! i - values ! (i - 1)
               in if change > 0 then (gains + change, losses) else (gains, losses - change)))
       (0, 0) [length values - period ..< length values]"

definition rsi :: "real list \<Rightarrow> nat \<Rightarrow> real option" where
  "rsi values period =
     (if length values < period + 1 then None
      else
        (let gains = fst (rsi_sums values period);
             losses = snd (rsi_sums values period);
             avgGain = gains / real period;
             avgLoss = losses / real period
         in if avgLoss = 0 then Some 100
            else (let rs = avgGain / avgLoss in Some (100 - 100 / (1 + rs)))))"

record macd_out =
  macdLine :: real
  signalLine :: real
  histogram :: real

text \<open>
  \<^verbatim>\<open>macd(values, fast = 12, slow = 26, signal = 9)\<close>.  The loop index starts at
  \<^verbatim>\<open>Math.max(0, values.length - (slow + signal + 20))\<close>, which is the truncating
  subtraction on \<open>nat\<close>; \<^verbatim>\<open>values.slice(0, i + 1)\<close> is \<open>take (i + 1)\<close>.
\<close>

definition macd :: "real list \<Rightarrow> nat \<Rightarrow> nat \<Rightarrow> nat \<Rightarrow> macd_out option" where
  "macd values fast slow signal =
     (if length values < slow + signal then None
      else
        (case (ema values fast, ema values slow) of
           (Some fastEma, Some slowEma) \<Rightarrow>
             (let macdValue = fastEma - slowEma;
                  k = 2 / (real signal + 1);
                  macdSeries =
                    List.map_filter
                      (\<lambda>i. case (ema (take (i + 1) values) fast, ema (take (i + 1) values) slow) of
                             (Some emaFast, Some emaSlow) \<Rightarrow> Some (emaFast - emaSlow)
                           | _ \<Rightarrow> None)
                      [length values - (slow + signal + 20) ..< length values];
                  signalEma =
                    (case macdSeries of
                       [] \<Rightarrow> macdValue
                     | m0 # rest \<Rightarrow> foldl (\<lambda>se m. m * k + se * (1 - k)) m0 rest)
              in Some \<lparr>macdLine = macdValue, signalLine = signalEma,
                       histogram = macdValue - signalEma\<rparr>)
         | _ \<Rightarrow> None))"

record bollinger_out =
  middle :: real
  upper :: real
  lower :: real
  std :: real

text \<open>
  \<^verbatim>\<open>bollinger(values, period = 20, mult = 2)\<close>; \<^verbatim>\<open>values.slice(-period)\<close> is the last
  \<open>period\<close> values (the analyzer calls it with period 20 only).
\<close>

definition bollinger :: "real list \<Rightarrow> nat \<Rightarrow> real \<Rightarrow> bollinger_out option" where
  "bollinger values period mult =
     (if length values < period then None
      else
        (let slice = drop (length values - period) values;
             mean = reduce (\<lambda>a b. a + b) 0 slice / real period;
             variance = reduce (\<lambda>a b. a + (b - mean) ^ 2) 0 slice / real period;
             sd = sqrt variance
         in Some \<lparr>middle = mean, upper = mean + mult * sd, lower = mean - mult * sd, std = sd\<rparr>))"

text \<open>
  \<^verbatim>\<open>atr(candles, period = 14)\<close>: the mean true range of the trailing \<open>period\<close>
  candles.  \<^verbatim>\<open>candles[i - 1] || cur\<close> always finds the previous candle, the guard
  having ensured \<open>i \<ge> 1\<close>.
\<close>

definition atr :: "candle list \<Rightarrow> nat \<Rightarrow> real option" where
  "atr candles period =
     (if length candles < period + 1 then None
      else
        (let trs = map (\<lambda>i. (let cur = candles ! i;
                                  prev = candles ! (i - 1);
                                  closePrev = close prev
                              in max (max (high cur - low cur) \<bar>high cur - closePrev\<bar>)
                                     \<bar>low cur - closePrev\<bar>))
                       [length candles - period ..< length candles]
         in Some (reduce (\<lambda>a b. a + b) 0 trs / real (length trs))))"

definition normalize :: "real \<Rightarrow> real \<Rightarrow> real \<Rightarrow> real" where
  "normalize x a b = (if b = a then 0 else max 0 (min 1 ((x - a) / (b - a))))"

section \<open>Technical signal analyzer\<close>

datatype signal_action = BUY | SELL | HOLD

text \<open>\<^verbatim>\<open>x && p(x)\<close> on a number that may be \<^verbatim>\<open>null\<close>: false when it is absent or zero.\<close>

definition js_and_num :: "real option \<Rightarrow> (real \<Rightarrow> bool) \<Rightarrow> bool" where
  "js_and_num x p = (case x of None \<Rightarrow> False | Some v \<Rightarrow> v \<noteq> 0 \<and> p v)"

text \<open>\<^verbatim>\<open>arr[arr.length - 1]\<close>, which is \<^verbatim>\<open>undefined\<close> on the empty array.\<close>

definition last_elem :: "'a list \<Rightarrow> 'a option" where
  "last_elem arr = (if arr = [] then None else Some (last arr))"

text \<open>\<^verbatim>\<open>Number(x.toFixed(2))\<close> for \<open>x \<ge> 0\<close>: two decimals, half up.\<close>

definition toFixed2 :: "real \<Rightarrow> real" where
  "toFixed2 x = of_int \<lfloor>x * 100 + 1 / 2\<rfloor> / 100"

text \<open>The block ``Mean reversion on 5m'' of \<^verbatim>\<open>analyzeMultiTimeframe\<close>.\<close>

definition meanReversionBias :: "bollinger_out option \<Rightarrow> real option \<Rightarrow> real option \<Rightarrow> real" where
  "meanReversionBias bb5 last5 rsi5 =
     (case (bb5, last5) of
        (Some bb, Some l5) \<Rightarrow>
          if l5 > upper bb \<and> js_and_num rsi5 (\<lambda>r. r > 70) then - 1
          else if l5 < lower bb \<and> js_and_num rsi5 (\<lambda>r. r < 30) then 1
          else 0
      | _ \<Rightarrow> 0)"

text \<open>The mean-reversion bias of a short-timeframe close sequence, as the analyzer computes it.\<close>

definition mrBias :: "real list \<Rightarrow> real" where
  "mrBias closes5 = meanReversionBias (bollinger closes5 20 2) (last_elem closes5) (rsi closes5 14)"

text \<open>The block ``Trend following on 1h/4h''.\<close>

definition trendFollowingBias ::
  "real option \<Rightarrow> real option \<Rightarrow> real option \<Rightarrow> macd_out option \<Rightarrow> real" where
  "trendFollowingBias ema9 ema21 ema50 macd1 =
     (case (ema9, ema21, ema50) of
        (Some e9, Some e21, Some e50) \<Rightarrow>
          (let h = (case macd1 of None \<Rightarrow> 0 | Some m \<Rightarrow> histogram m) in
           if e9 > e21 \<and> e21 > e50 \<and> h > 0 then 1
           else if e9 < e21 \<and> e21 < e50 \<and> h < 0 then - 1
           else 0)
      | _ \<Rightarrow> 0)"

record tech_context =
  rsi5m :: "real option"
  rsi1h :: "real option"
  rsi4h :: "real option"
  macd1h :: "macd_out option"
  macd4h :: "macd_out option"
  bb5m :: "bollinger_out option"
  bb1h :: "bollinger_out option"
  ema9_1h :: "real option"
  ema21_1h :: "real option"
  ema50_1h :: "real option"
  atr1h :: "real option"
  reversionTarget :: "real option"

record tech_signal =
  tech_action :: signal_action
  tech_confidence :: real
  tech_size :: real
  tech_ctx :: tech_context

record multi_tf =
  candles5m :: "candle list option"
  candles1h :: "candle list option"
  candles4h :: "candle list option"

text \<open>
  \<^verbatim>\<open>analyzeMultiTimeframe({ candles5m, candles1h, candles4h })\<close>.  The rationale text
  and the volume profile, which only go to the audit context, are left out.
\<close>

definition toCloses :: "candle list option \<Rightarrow> real list" where
  "toCloses cs = map close (dflt cs [])"

definition analyzeMultiTimeframe :: "multi_tf \<Rightarrow> tech_signal" where
  "analyzeMultiTimeframe tf =
     (let closes5 = toCloses (candles5m tf);
          closes1h = toCloses (candles1h tf);
          closes4h = toCloses (candles4h tf);
          rsi5 = rsi closes5 14;
          rsi1 = rsi closes1h 14;
          rsi4 = rsi closes4h 14;
          macd1 = macd closes1h 12 26 9;
          macd4 = macd closes4h 12 26 9;
          bb5 = bollinger closes5 20 2;
          bb1 = bollinger closes1h 20 2;
          ema9 = ema closes1h 9;
          ema21 = ema closes1h 21;
          ema50 = ema closes1h 50;
          atr1 = atr (dflt (candles1h tf) []) 14;
          last5 = last_elem closes5;
          last1 = last_elem closes1h;
          mr = meanReversionBias bb5 last5 rsi5;
          reversion = (case bb5 of Some bb \<Rightarrow> Some (middle bb) | None \<Rightarrow> last5);
          trendBias = trendFollowingBias ema9 ema21 ema50 macd1;
          volNorm = normalize (js_or_opt atr1 0) 0
                      (if truthy last1 then the last1 * (3 / 100) else 1);
          mrWeight = 45 / 100 * (1 - volNorm);
          trendWeight = 55 / 100 * (1 / 2 + volNorm / 2);
          bias = mr * mrWeight + trendBias * trendWeight;
          action = (if bias > 1 / 10 then BUY else if bias < - (1 / 10) then SELL else HOLD);
          confidence = min (99 / 100) \<bar>bias\<bar>;
          size = max (5 / 100) (min (1 / 2) (25 / 100 * (1 / 2 + volNorm / 2)))
      in \<lparr>tech_action = action,
          tech_confidence = toFixed2 confidence,
          tech_size = toFixed2 size,
          tech_ctx = \<lparr>rsi5m = rsi5, rsi1h = rsi1, rsi4h = rsi4, macd1h = macd1, macd4h = macd4,
                      bb5m = bb5, bb1h = bb1, ema9_1h = ema9, ema21_1h = ema21, ema50_1h = ema50,
                      atr1h = atr1, reversionTarget = reversion\<rparr>\<rparr>)"

section \<open>Sentiment fusion engine (strategies/sentiment\_engine.js)\<close>

record social_in =
  twitterScore :: "real option"
  telegramScore :: "real option"
  trendsScore :: "real option"
  newsScore :: "real option"

record onchain_in =
  whaleInflowUsd :: "real option"
  whaleOutflowUsd :: "real option"
  exchangeNetflow :: "real option"
  gasPriceGwei :: "real option"
  activeAddrsDelta :: "real option"

record cluster =
  cl_price :: real
  cl_size :: real

record orderbook_in =
  imbalance :: "real option"
  bidDepth :: "real option"
  askDepth :: "real option"

record market_in =
  supports :: "real list option"
  resistances :: "real list option"
  liquidationClusters :: "cluster list option"
  orderbook :: "orderbook_in option"

text \<open>The empty object \<^verbatim>\<open>{}\<close> of each input shape: every field absent.\<close>

definition empty_social :: social_in where
  "empty_social = \<lparr>twitterScore = None, telegramScore = None, trendsScore = None, newsScore = None\<rparr>"

definition empty_onchain :: onchain_in where
  "empty_onchain = \<lparr>whaleInflowUsd = None, whaleOutflowUsd = None, exchangeNetflow = None,
     gasPriceGwei = None, activeAddrsDelta = None\<rparr>"

definition empty_orderbook :: orderbook_in where
  "empty_orderbook = \<lparr>imbalance = None, bidDepth = None, askDepth = None\<rparr>"

definition empty_market :: market_in where
  "empty_market = \<lparr>supports = None, resistances = None, liquidationClusters = None,
     orderbook = None\<rparr>"

definition clamp :: "real \<Rightarrow> real \<Rightarrow> real \<Rightarrow> real" where
  "clamp x a b = min b (max a x)"

definition scoreSocial :: "social_in option \<Rightarrow> real" where
  "scoreSocial social =
     (let s = dflt social empty_social;
          twitter = dflt (twitterScore s) 0;
          telegram = dflt (telegramScore s) 0;
          trends = dflt (trendsScore s) 0;
          news = dflt (newsScore s) 0;
          weighted = 35 / 100 * twitter + 2 / 10 * telegram + 25 / 100 * news + 2 / 10 * trends
      in clamp (js_round (weighted * 50 + 50)) 0 100)"

definition scoreOnChain :: "onchain_in option \<Rightarrow> real" where
  "scoreOnChain onchain =
     (let c = dflt onchain empty_onchain;
          inflow = dflt (whaleInflowUsd c) 0;
          outflow = dflt (whaleOutflowUsd c) 0;
          netflow = dflt (exchangeNetflow c) 0;
          gas = dflt (gasPriceGwei c) 0;
          addrs = dflt (activeAddrsDelta c) 0;
          whaleNetUsd = inflow - outflow;
          whaleTerm = tanh (whaleNetUsd / 1000000);
          flowTerm = clamp netflow (- 1) 1;
          gasTerm = tanh ((gas - 20) / 50);
          addrTerm = clamp addrs (- 1) 1;
          weighted = 45 / 100 * whaleTerm - 25 / 100 * flowTerm + 15 / 100 * gasTerm
                     + 15 / 100 * addrTerm
      in clamp (js_round (weighted * 50 + 50)) 0 100)"

text \<open>
  The reducer that finds the liquidation cluster nearest to the last price: a cluster
  replaces the best so far only when strictly nearer.  The triple is
  \<^verbatim>\<open>{ d, side, size }\<close> with the side as ``is above''.
\<close>

definition nearest_step ::
  "real \<Rightarrow> (real \<times> bool \<times> real) option \<Rightarrow> cluster \<Rightarrow> (real \<times> bool \<times> real) option" where
  "nearest_step lastPrice best c =
     (let d = \<bar>cl_price c - lastPrice\<bar> in
      case best of
        None \<Rightarrow> Some (d, cl_price c > lastPrice, cl_size c)
      | Some (bd, bside, bsize) \<Rightarrow>
          if d < bd then Some (d, cl_price c > lastPrice, cl_size c) else best)"

text \<open>
  \<^verbatim>\<open>xs.reduce((p, s) => Math.min(p, Math.abs(s - lastPrice)), Infinity)\<close>: the result is
  \<open>None\<close> for \<^verbatim>\<open>Infinity\<close>, that is for the empty array.
\<close>

definition closest_dist :: "real \<Rightarrow> real list \<Rightarrow> real option" where
  "closest_dist lastPrice xs =
     reduce (\<lambda>p s. case p of None \<Rightarrow> Some \<bar>s - lastPrice\<bar>
                            | Some q \<Rightarrow> Some (min q \<bar>s - lastPrice\<bar>)) None xs"

text \<open>
  \<^verbatim>\<open>Math.tanh((nearR - nearS) * 5)\<close> where a distance may be \<^verbatim>\<open>Infinity\<close>: an
  infinite distance divided by the last price keeps the sign of the price, and
  \<^verbatim>\<open>tanh\<close> of an infinity is \<open>\<plusminus>1\<close>.  Both distances infinite does not occur, one of
  the two arrays being non-empty.
\<close>

definition srBias_of :: "real \<Rightarrow> real option \<Rightarrow> real option \<Rightarrow> real" where
  "srBias_of lastPrice closestSupport closestResistance =
     (case (closestSupport, closestResistance) of
        (Some s, Some r) \<Rightarrow> tanh ((r / lastPrice - s / lastPrice) * 5)
      | (None, Some r) \<Rightarrow> (if lastPrice > 0 then - 1 else 1)
      | (Some s, None) \<Rightarrow> (if lastPrice > 0 then 1 else - 1)
      | (None, None) \<Rightarrow> 0)"

definition scoreMarketStructure :: "market_in option \<Rightarrow> real \<Rightarrow> real" where
  "scoreMarketStructure market lastPrice =
     (let m = dflt market empty_market;
          sup = dflt (supports m) [];
          res = dflt (resistances m) [];
          clusters = dflt (liquidationClusters m) [];
          ob = dflt (orderbook m) empty_orderbook;
          imb = dflt (imbalance ob) 0;
          bid = dflt (bidDepth ob) 0;
          ask = dflt (askDepth ob) 0;
          clusterBias =
            (if clusters \<noteq> [] \<and> lastPrice \<noteq> 0 then
               (case reduce (nearest_step lastPrice) None clusters of
                  Some (d, isAbove, sz) \<Rightarrow> tanh ((if isAbove then - sz else sz) / 1000000)
                | None \<Rightarrow> 0)
             else 0);
          depthBias = tanh (((bid - ask) / max 1 (bid + ask)) * 3) + clamp imb (- 1) 1 * (1 / 2);
          srBias =
            (if lastPrice \<noteq> 0 \<and> (sup \<noteq> [] \<or> res \<noteq> []) then
               srBias_of lastPrice (closest_dist lastPrice sup) (closest_dist lastPrice res)
             else 0);
          weighted = 1 / 2 * depthBias + 1 / 2 * srBias + 3 / 10 * clusterBias
      in clamp (js_round (weighted * 50 + 50)) 0 100)"

datatype sentiment_label = bullish | bearish | neutral

record sentiment =
  score :: real
  label :: sentiment_label
  socialScore :: real
  onchainScore :: real
  structureScore :: real

definition fuseSentiment ::
  "social_in option \<Rightarrow> onchain_in option \<Rightarrow> market_in option \<Rightarrow> real \<Rightarrow> sentiment" where
  "fuseSentiment social onchain market lastPrice =
     (let soc = scoreSocial social;
          onc = scoreOnChain onchain;
          str = scoreMarketStructure market lastPrice;
          sc = js_round (45 / 100 * soc + 35 / 100 * onc + 2 / 10 * str);
          lb = (if sc > 60 then bullish else if sc < 40 then bearish else neutral)
      in \<lparr>score = sc, label = lb, socialScore = soc, onchainScore = onc, structureScore = str\<rparr>)"

section \<open>Decision fusion orchestrator (ai/decision\_engine.js)\<close>

text \<open>\<^verbatim>\<open>toLowerCase\<close> on the ASCII letters, which is all the strategy tags and flags use.\<close>

definition lower_char :: "char \<Rightarrow> char" where
  "lower_char c =
     (case map_of (zip ''ABCDEFGHIJKLMNOPQRSTUVWXYZ'' ''abcdefghijklmnopqrstuvwxyz'') c of
        Some l \<Rightarrow> l
      | None \<Rightarrow> c)"

definition toLowerCase :: "string \<Rightarrow> string" where
  "toLowerCase s = map lower_char s"

text \<open>
  A past trade outcome.  \<open>rr\<close> is \<^verbatim>\<open>Number(t.rr)\<close>, absent when the field is missing or
  not numeric; \<open>success\<close> is \<^verbatim>\<open>t.success === true\<close>.
\<close>

record perf_trade =
  strategy :: "string option"
  success :: bool
  rr :: "real option"

record perf_weights =
  w_tech :: real
  w_sentiment :: real

definition perf_score :: "perf_trade list \<Rightarrow> real" where
  "perf_score arr =
     (if arr = [] then 1 / 2
      else
        (let wins = real (length (filter success arr)) / real (length arr);
             avgRr = reduce (\<lambda>a b. a + js_or_opt (rr b) 0) 0 arr / real (length arr)
         in max 0 (min 1 (6 / 10 * wins + 4 / 10 * tanh avgRr))))"

definition strategy_key :: "perf_trade \<Rightarrow> string" where
  "strategy_key t = toLowerCase (dflt (strategy t) [])"

definition computePerfWeights :: "perf_trade list \<Rightarrow> perf_weights" where
  "computePerfWeights recentTrades =
     (let techBucket = filter (\<lambda>t. strategy_key t = ''tech'' \<or> strategy_key t = ''technical'')
                         recentTrades;
          sentBucket = filter (\<lambda>t. strategy_key t = ''sentiment'') recentTrades;
          techScore = perf_score techBucket;
          sentScore = perf_score sentBucket;
          sum = js_or (techScore + sentScore) 1
      in \<lparr>w_tech = techScore / sum, w_sentiment = sentScore / sum\<rparr>)"

text \<open>
  The advisory response.  \<open>advisory_json\<close> is the object \<^verbatim>\<open>extractJson\<close> parsed out of
  the reply, with the coercions \<^verbatim>\<open>sanitizeDecision\<close> applies first already done:
  \<open>j_action\<close> is \<^verbatim>\<open>String(obj.action || obj.DECISION || '').toUpperCase()\<close>, a numeric
  field is \<^verbatim>\<open>Number(...)\<close> of the first truthy spelling or of 0, and \<open>None\<close> stands for
  \<^verbatim>\<open>NaN\<close>.
\<close>

record advisory_json =
  j_action :: string
  j_confidence :: "real option"
  j_position_size :: "real option"
  j_stop_loss :: "real option"
  j_take_profit :: "real option"
  j_rationale :: string

record llm_decision =
  llm_action :: signal_action
  llm_confidence :: "real option"
  positionSizePct :: "real option"
  llm_stopLoss :: real
  llm_takeProfit :: real
  rationale :: string

definition sanitizeDecision :: "advisory_json option \<Rightarrow> llm_decision option" where
  "sanitizeDecision obj =
     (case obj of
        None \<Rightarrow> None
      | Some j \<Rightarrow>
          Some \<lparr>llm_action = (if j_action j = ''BUY'' then BUY
                               else if j_action j = ''SELL'' then SELL
                               else HOLD),
                llm_confidence = map_option (\<lambda>c. max 0 (min 1 c)) (j_confidence j),
                positionSizePct = map_option (\<lambda>c. max 0 (min 100 c)) (j_position_size j),
                llm_stopLoss = js_or_opt (j_stop_loss j) 0,
                llm_takeProfit = js_or_opt (j_take_profit j) 0,
                rationale = j_rationale j\<rparr>)"

text \<open>
  What \<^verbatim>\<open>consultDeepSeek\<close> resolves to: \<^verbatim>\<open>null\<close>, the fallback \<^verbatim>\<open>{ raw: text }\<close>,
  or a sanitized decision.
\<close>

datatype llm_result = LlmNull | LlmRaw "string option" | LlmDecision llm_decision

record env =
  DEEPSEEK_API_KEY :: string
  USE_DEEPSEEK :: string

text \<open>
  The outcome of the HTTP call: it throws (network error, timeout, a reply of the wrong
  shape), or it yields the reply text together with what \<^verbatim>\<open>extractJson\<close> parses out
  of it.
\<close>

datatype http_outcome = HttpFailed | HttpReplied "string option" "advisory_json option"

definition consultDeepSeek :: "env \<Rightarrow> http_outcome \<Rightarrow> llm_result" where
  "consultDeepSeek e http =
     (let apiKey = DEEPSEEK_API_KEY e;
          use = (toLowerCase (USE_DEEPSEEK e) = ''true'')
      in if apiKey = [] \<or> \<not> use then LlmNull
         else
           (case http of
              HttpFailed \<Rightarrow> LlmNull
            | HttpReplied text parsed \<Rightarrow>
                (case sanitizeDecision parsed of
                   Some d \<Rightarrow> LlmDecision d
                 | None \<Rightarrow> LlmRaw text)))"

record positions_in =
  equityUsd :: "real option"

record events_in =
  social :: "social_in option"
  onchain :: "onchain_in option"
  market :: "market_in option"

record trade_input =
  symbol :: string
  candles :: "candle list option"
  events :: "events_in option"
  positions :: "positions_in option"
  multiTf :: "multi_tf option"
  recentTrades :: "perf_trade list option"

text \<open>
  \<^verbatim>\<open>multiTf?.candles1h?.[multiTf.candles1h.length - 1]?.close
  || candles?.[candles.length - 1]?.close || 0\<close>
\<close>

definition lastCloseOf :: "trade_input \<Rightarrow> real" where
  "lastCloseOf inp =
     js_or_opt (map_option close (Option.bind (Option.bind (multiTf inp) candles1h) last_elem))
       (js_or_opt (map_option close (Option.bind (candles inp) last_elem)) 0)"

text \<open>
  The variables of \<^verbatim>\<open>decideTrade\<close> that are live after the sizing step, that is after
  \<^verbatim>\<open>const sizeUsd = capOrderSizeUsd(notionalSize)\<close>.
\<close>

record local_decision =
  l_lastClose :: real
  l_atr1 :: real
  l_regime :: regime
  l_action :: trade_action
  l_confidence :: real
  l_equity :: real
  l_sizeUsd :: real

definition localDecision :: "risk_config \<Rightarrow> trade_input \<Rightarrow> local_decision" where
  "localDecision cfg inp =
     (let cs = candles inp;
          tech = analyzeMultiTimeframe
                   (dflt (multiTf inp) \<lparr>candles5m = cs, candles1h = cs, candles4h = cs\<rparr>);
          lastClose = lastCloseOf inp;
          ev = events inp;
          sentiment = fuseSentiment (Option.bind ev social) (Option.bind ev onchain)
                        (Option.bind ev market) lastClose;
          atr1 = js_or_opt (atr1h (tech_ctx tech)) 0;
          atrPct = (if atr1 \<noteq> 0 \<and> lastClose \<noteq> 0 then atr1 / lastClose else 0);
          ema9 = js_or_opt (ema9_1h (tech_ctx tech)) lastClose;
          ema21 = js_or_opt (ema21_1h (tech_ctx tech)) lastClose;
          emaSlope = (ema9 - ema21) / max 1 lastClose;
          reg = detectRegime atrPct emaSlope
                  (Some (if Option.bind (Option.bind ev market) orderbook \<noteq> None
                         then 6 / 10 else 1 / 2));
          baseTechWeight = (if trending reg then 65 / 100 else 45 / 100);
          baseSentWeight = 1 - baseTechWeight;
          perfW = computePerfWeights (dflt (recentTrades inp) []);
          techWeight = min (8 / 10) (max (2 / 10) (1 / 2 * baseTechWeight + 1 / 2 * w_tech perfW));
          sentWeight = min (8 / 10)
                         (max (2 / 10) (1 / 2 * baseSentWeight + 1 / 2 * w_sentiment perfW));
          norm = js_or (techWeight + sentWeight) 1;
          techBias = (if tech_action tech = BUY then 1
                      else if tech_action tech = SELL then - 1 else (0 :: real));
          techStrength = js_or (tech_confidence tech) (1 / 2);
          sentimentBias = (score sentiment - 50) / 50;
          fused = (techBias * techStrength) * (techWeight / norm)
                  + sentimentBias * (sentWeight / norm);
          action0 = (if fused > 1 / 10 then buy else if fused < - (1 / 10) then sell else hold);
          confidence = min (99 / 100) \<bar>fused\<bar>;
          conflict = ((techBias > 0 \<and> sentimentBias < - (25 / 100))
                      \<or> (techBias < 0 \<and> sentimentBias > 25 / 100));
          action =
            (if conflict \<and> confidence < 25 / 100 then hold
             else if conflict \<and> confidence \<ge> 25 / 100 then
               (if trending reg then (if techBias > 0 then buy else sell)
                else (if sentimentBias > 0 then buy else sell))
             else action0);
          accountEquityUsd = js_or_opt (Option.bind (positions inp) equityUsd) 10000;
          notionalSize = positionSizeUsd accountEquityUsd confidence atrPct (2 / 100);
          sizeUsd = capOrderSizeUsd cfg notionalSize
      in \<lparr>l_lastClose = lastClose, l_atr1 = atr1, l_regime = reg, l_action = action,
          l_confidence = confidence, l_equity = accountEquityUsd, l_sizeUsd = sizeUsd\<rparr>)"

text \<open>
  The acceptance test of the advisory overlay:
  \<^verbatim>\<open>(aligns && confOk) || (llmDecision.confidence || 0) > confidence + 0.2\<close>.
\<close>

definition overlayAccepted :: "trade_action \<Rightarrow> real \<Rightarrow> llm_decision \<Rightarrow> bool" where
  "overlayAccepted action confidence d =
     (let llmBias = (if llm_action d = BUY then 1 else if llm_action d = SELL then - 1 else (0 :: real));
          aligns = ((action = buy \<and> llmBias > 0) \<or> (action = sell \<and> llmBias < 0)
                    \<or> (action = hold \<and> llmBias = 0));
          confOk = (js_or_opt (llm_confidence d) 0 \<ge> confidence - 1 / 10)
      in (aligns \<and> confOk) \<or> js_or_opt (llm_confidence d) 0 > confidence + 2 / 10)"

text \<open>The advisory-implied size: \<^verbatim>\<open>capOrderSizeUsd(accountEquityUsd * (positionSizePct / 100))\<close>.\<close>

definition advisorySized :: "risk_config \<Rightarrow> real \<Rightarrow> real \<Rightarrow> real" where
  "advisorySized cfg accountEquityUsd pct = capOrderSizeUsd cfg (accountEquityUsd * (pct / 100))"

definition lowerAction :: "signal_action \<Rightarrow> trade_action" where
  "lowerAction a = (case a of BUY \<Rightarrow> buy | SELL \<Rightarrow> sell | HOLD \<Rightarrow> hold)"

datatype js_error = TypeError

text \<open>
  The block ``Final decision gating''.  It yields the final
  \<^verbatim>\<open>(action, confidence, sizeUsd)\<close>.  The statement
  \<^verbatim>\<open>sizeUsd = Math.min(sizeUsd, sized)\<close> assigns to \<^verbatim>\<open>sizeUsd\<close>, which is declared
  with \<^verbatim>\<open>const\<close>: executing it throws a \<^verbatim>\<open>TypeError\<close>, and nothing in
  \<^verbatim>\<open>decideTrade\<close> catches it.
\<close>

definition advisoryOverlay ::
  "risk_config \<Rightarrow> local_decision \<Rightarrow> llm_result \<Rightarrow> js_error + (trade_action \<times> real \<times> real)" where
  "advisoryOverlay cfg L llmDecision =
     (case llmDecision of
        LlmDecision d \<Rightarrow>
          if overlayAccepted (l_action L) (l_confidence L) d then
            (let action = lowerAction (llm_action d);
                 confidence = max (l_confidence L) (js_or_opt (llm_confidence d) 0)
             in if truthy (positionSizePct d) then
                  (let sized = advisorySized cfg (l_equity L) (the (positionSizePct d))
                   in if sized > 0 then Inl TypeError
                      else Inr (action, confidence, l_sizeUsd L))
                else Inr (action, confidence, l_sizeUsd L))
          else Inr (l_action L, l_confidence L, l_sizeUsd L)
      | _ \<Rightarrow> Inr (l_action L, l_confidence L, l_sizeUsd L))"

text \<open>
  The decision record.  The two prompt texts of the source record are left out: they are
  renderings of the inputs and take no part in any number of the decision.
\<close>

record trade_decision =
  d_symbol :: string
  d_action :: trade_action
  d_confidence :: real
  d_sizeUsd :: real
  d_regime :: regime
  d_stops :: stops
  d_llmDecision :: llm_result

text \<open>
  The two shapes \<^verbatim>\<open>decideTrade\<close> returns: \<^verbatim>\<open>{ action: 'hold', reason: 'risk_halt' }\<close>
  from the gate, or the full decision record.
\<close>

datatype decide_result = RiskHalt trade_action string | Decision trade_decision

definition decideTrade ::
  "risk_config \<Rightarrow> env \<Rightarrow> trade_input \<Rightarrow> http_outcome \<Rightarrow> js_error + decide_result" where
  "decideTrade cfg e inp http =
     (let circuit = marketCircuitBreaker 0 0 0 False False in
      if shouldHaltTrading cfg 0 0 circuit then Inr (RiskHalt hold ''risk_halt'')
      else
        (let L = localDecision cfg inp;
             llmDecision = consultDeepSeek e http
         in case advisoryOverlay cfg L llmDecision of
              Inl err \<Rightarrow> Inl err
            | Inr (action, confidence, sizeUsd) \<Rightarrow>
                Inr (Decision
                  \<lparr>d_symbol = symbol inp,
                   d_action = action,
                   d_confidence = confidence,
                   d_sizeUsd = sizeUsd,
                   d_regime = l_regime L,
                   d_stops = computeStops cfg (js_or (l_lastClose L) 0)
                               (if action = sell then sell else buy) (Some (l_atr1 L)),
                   d_llmDecision = llmDecision\<rparr>)))"

text \<open>
  The order-book imbalance an input carries, \<^verbatim>\<open>events.market.orderbook.imbalance\<close>
  (0 when absent): the one argument of \<^verbatim>\<open>marketCircuitBreaker\<close> that the input of
  \<^verbatim>\<open>decideTrade\<close> holds.
\<close>

definition orderbookImbalanceOf :: "trade_input \<Rightarrow> real" where
  "orderbookImbalanceOf inp =
     dflt (Option.bind (Option.bind (Option.bind (events inp) market) orderbook) imbalance) 0"

text \<open>The action and the stops of a returned result; the gate's record has no stops.\<close>

definition result_action :: "decide_result \<Rightarrow> trade_action" where
  "result_action r = (case r of RiskHalt a reason \<Rightarrow> a | Decision d \<Rightarrow> d_action d)"

definition result_stops :: "decide_result \<Rightarrow> stops option" where
  "result_stops r = (case r of RiskHalt a reason \<Rightarrow> None | Decision d \<Rightarrow> Some (d_stops d))"

definition result_reason :: "decide_result \<Rightarrow> string option" where
  "result_reason r = (case r of RiskHalt a reason \<Rightarrow> Some reason | Decision d \<Rightarrow> None)"

section \<open>Concrete inputs\<close>

text \<open>The double that the literal \<^verbatim>\<open>0.1\<close> denotes.\<close>

definition d01 :: real where
  "d01 = 3602879701896397 / 2 ^ 55"

text \<open>
  Twenty 5-minute closes: eighteen at 100, then two at 90.  The mean is 99 and the
  population standard deviation 3, so the lower Bollinger band is 93; the only non-zero
  change among the last fourteen is the fall of 10.
\<close>

definition falling_closes :: "real list" where
  "falling_closes = [100, 100, 100, 100, 100, 100, 100, 100, 100, 100,
                     100, 100, 100, 100, 100, 100, 100, 100, 90, 90]"

definition candle100 :: candle where
  "candle100 = \<lparr>c_open = 100, high = 100, low = 100, close = 100, volume = 1\<rparr>"

text \<open>The advisory overlay switched on, and switched off.\<close>

definition env_on :: env where
  "env_on = \<lparr>DEEPSEEK_API_KEY = ''key'', USE_DEEPSEEK = ''true''\<rparr>"

definition env_off :: env where
  "env_off = \<lparr>DEEPSEEK_API_KEY = [], USE_DEEPSEEK = []\<rparr>"

text \<open>One 1-hour candle closing at 100 and nothing else: no events, positions or history.\<close>

definition quiet_input :: trade_input where
  "quiet_input = \<lparr>symbol = ''BTC-USD'', candles = Some [candle100], events = None,
     positions = None, multiTf = None, recentTrades = None\<rparr>"

text \<open>
  Strongly positive sentiment with an order-book imbalance of 1, an account equity of
  10000 and a history in which the sentiment strategy won and the technical one lost.
\<close>

definition bullish_input :: trade_input where
  "bullish_input =
     \<lparr>symbol = ''BTC-USD'', candles = Some [candle100],
      events = Some
        \<lparr>social = Some \<lparr>twitterScore = Some 1, telegramScore = Some 1, trendsScore = Some 1,
                          newsScore = Some 1\<rparr>,
         onchain = Some \<lparr>whaleInflowUsd = None, whaleOutflowUsd = None,
                           exchangeNetflow = Some (- 1), gasPriceGwei = Some 20,
                           activeAddrsDelta = Some 1\<rparr>,
         market = Some (empty_market
           \<lparr>orderbook := Some \<lparr>imbalance = Some 1, bidDepth = None, askDepth = None\<rparr>\<rparr>)\<rparr>,
      positions = Some \<lparr>equityUsd = Some 10000\<rparr>,
      multiTf = None,
      recentTrades = Some
        [\<lparr>strategy = Some ''tech'', success = False, rr = Some 0\<rparr>,
         \<lparr>strategy = Some ''sentiment'', success = True, rr = Some 0\<rparr>]\<rparr>"

text \<open>
  Two well-formed advisory replies, each asking for 5 percent of equity: the objects
  parsed out of the reply text are
  \<^verbatim>\<open>{"action":"BUY","confidence":0.6,"position_size":5}\<close> and
  \<^verbatim>\<open>{"action":"HOLD","confidence":0.5,"position_size":5}\<close>.
\<close>

definition advisory_buy :: http_outcome where
  "advisory_buy = HttpReplied (Some ''reply'')
     (Some \<lparr>j_action = ''BUY'', j_confidence = Some (6 / 10), j_position_size = Some 5,
            j_stop_loss = Some 0, j_take_profit = Some 0, j_rationale = []\<rparr>)"

definition advisory_hold :: http_outcome where
  "advisory_hold = HttpReplied (Some ''reply'')
     (Some \<lparr>j_action = ''HOLD'', j_confidence = Some (1 / 2), j_position_size = Some 5,
            j_stop_loss = Some 0, j_take_profit = Some 0, j_rationale = []\<rparr>)"

text \<open>The configuration under \<^verbatim>\<open>MAX_DAILY_LOSS_USD=0\<close>.\<close>

definition zero_loss_risk :: risk_config where
  "zero_loss_risk = default_risk\<lparr>maxDailyLossUsd := 0\<rparr>"

section \<open>Properties of double-precision rounding\<close>




lemma rne_eqI:
  "of_int m - 1 / 2 < y \<Longrightarrow> y < of_int m + 1 / 2 \<Longrightarrow> rne y = m"
proof -
  assume a: "of_int m - 1 / 2 < y" and b: "y < of_int m + 1 / 2"
  have "\<lfloor>y\<rfloor> = m \<or> \<lfloor>y\<rfloor> = m - 1"
  proof -
    have "of_int (m - 1) \<le> y" using a by simp
    then have "m - 1 \<le> \<lfloor>y\<rfloor>" by (simp add: le_floor_iff)
    moreover have "y < of_int (m + 1)" using b by simp
    then have "\<lfloor>y\<rfloor> < m + 1" using floor_less_iff [of y "m + 1"] by simp
    ultimately show ?thesis by linarith
  qed
  then show ?thesis
  proof
    assume f: "\<lfloor>y\<rfloor> = m"
    then show ?thesis using b by (simp add: rne_def Let_def)
  next
    assume f: "\<lfloor>y\<rfloor> = m - 1"
    then show ?thesis using a by (simp add: rne_def Let_def)
  qed
qed

lemma rne_tie_down: "y = of_int m + 1 / 2 \<Longrightarrow> even m \<Longrightarrow> rne y = m"
proof -
  assume y: "y = of_int m + 1 / 2" and ev: "even m"
  have "\<lfloor>y\<rfloor> = m" unfolding y by (simp add: floor_eq_iff)
  then show ?thesis using y ev by (simp add: rne_def Let_def)
qed

lemma rne_tie_up: "y = of_int m - 1 / 2 \<Longrightarrow> even m \<Longrightarrow> rne y = m"
proof -
  assume y: "y = of_int m - 1 / 2" and ev: "even m"
  have f: "\<lfloor>y\<rfloor> = m - 1" unfolding y by (simp add: floor_eq_iff)
  have "odd (m - 1)" using ev by simp
  then show ?thesis using y f by (simp add: rne_def Let_def)
qed

lemma two_powr_int: "(2::real) powr of_int j = 2 powi j"
  by (simp add: powr_real_of_int')

lemma floor_log2_eq:
  assumes "0 < x" "2 powi k \<le> x" "x < 2 powi (k + 1)"
  shows "\<lfloor>log 2 x\<rfloor> = k"
  using assms floor_log_eq_powr_iff [of x 2 k] two_powr_int [of k] two_powr_int [of "k + 1"]
  by simp


text \<open>Evaluation: a scaling by a power of two that brings the magnitude into [2^52, 2^53).\<close>

lemma binary64_evalI:
  assumes lo: "2 ^ 52 \<le> \<bar>x\<bar> * 2 ^ n" and hi: "\<bar>x\<bar> * 2 ^ n < 2 ^ 53" and n: "n \<le> 1074"
    and r: "rne (x * 2 ^ n) = m" and y: "y = of_int m / 2 ^ n"
  shows "binary64 x = y"
proof -
  have x0: "x \<noteq> 0" using lo by auto
  then have xp: "0 < \<bar>x\<bar>" by simp
  have p: "(2::real) powi (52 - int n) = 2 ^ 52 / 2 ^ n"
    by (simp add: power_int_diff)
  have p1: "(2::real) powi (52 - int n + 1) = 2 ^ 53 / 2 ^ n"
    by (simp add: power_int_diff power_int_add)
  have "2 powi (52 - int n) \<le> \<bar>x\<bar>" unfolding p using lo by (simp add: field_simps)
  moreover have "\<bar>x\<bar> < 2 powi (52 - int n + 1)" unfolding p1 using hi by (simp add: field_simps)
  ultimately have e: "\<lfloor>log 2 \<bar>x\<bar>\<rfloor> = 52 - int n" using xp by (intro floor_log2_eq)
  have m: "max (52 - int n) (- 1022) = 52 - int n" using n by simp
  have u: "(2::real) powi (- int n) = 1 / 2 ^ n"
    by (simp add: power_int_minus inverse_eq_divide)
  show ?thesis
    unfolding binary64_def using x0 by (simp add: e m u Let_def r y)
qed

lemma binary64_0: "binary64 0 = 0"
  by (simp add: binary64_def)






subsection \<open>Roundings at the concrete inputs\<close>

lemma b64_tenth: "binary64 (1 / 10) = 3602879701896397 / 2 ^ 55"
proof (rule binary64_evalI [where n = 56 and m = "7205759403792794"])
  show "rne ((1 / 10) * 2 ^ 56) = 7205759403792794"
    by (rule rne_eqI) simp_all
qed simp_all

lemma b64_sum_1: "binary64 (0 + 3602879701896397 / 2 ^ 55) = 3602879701896397 / 2 ^ 55"
proof (rule binary64_evalI [where n = 56 and m = "7205759403792794"])
  show "rne ((0 + 3602879701896397 / 2 ^ 55) * 2 ^ 56) = 7205759403792794"
    by (rule rne_eqI) simp_all
qed simp_all

lemma b64_sum_2: "binary64 (3602879701896397 / 2 ^ 55 + 3602879701896397 / 2 ^ 55) = 3602879701896397 / 2 ^ 54"
proof (rule binary64_evalI [where n = 55 and m = "7205759403792794"])
  show "rne ((3602879701896397 / 2 ^ 55 + 3602879701896397 / 2 ^ 55) * 2 ^ 55) = 7205759403792794"
    by (rule rne_eqI) simp_all
qed simp_all

lemma b64_sum_3: "binary64 (3602879701896397 / 2 ^ 54 + 3602879701896397 / 2 ^ 55) = 1351079888211149 / 2 ^ 52"
proof (rule binary64_evalI [where n = 54 and m = "5404319552844596"])
  show "rne ((3602879701896397 / 2 ^ 54 + 3602879701896397 / 2 ^ 55) * 2 ^ 54) = 5404319552844596"
    by (rule rne_tie_up) simp_all
qed simp_all

lemma b64_sq_0: "binary64 (3602879701896397 / 2 ^ 55 * (3602879701896397 / 2 ^ 55)) = 1441151880758559 / 2 ^ 57"
proof (rule binary64_evalI [where n = 59 and m = "5764607523034236"])
  show "rne ((3602879701896397 / 2 ^ 55 * (3602879701896397 / 2 ^ 55)) * 2 ^ 59) = 5764607523034236"
    by (rule rne_eqI) simp_all
qed simp_all

lemma b64_sumsq_1: "binary64 (0 + 1441151880758559 / 2 ^ 57) = 1441151880758559 / 2 ^ 57"
proof (rule binary64_evalI [where n = 59 and m = "5764607523034236"])
  show "rne ((0 + 1441151880758559 / 2 ^ 57) * 2 ^ 59) = 5764607523034236"
    by (rule rne_eqI) simp_all
qed simp_all

lemma b64_sumsq_2: "binary64 (1441151880758559 / 2 ^ 57 + 1441151880758559 / 2 ^ 57) = 1441151880758559 / 2 ^ 56"
proof (rule binary64_evalI [where n = 58 and m = "5764607523034236"])
  show "rne ((1441151880758559 / 2 ^ 57 + 1441151880758559 / 2 ^ 57) * 2 ^ 58) = 5764607523034236"
    by (rule rne_eqI) simp_all
qed simp_all

lemma b64_sumsq_3: "binary64 (1441151880758559 / 2 ^ 56 + 1441151880758559 / 2 ^ 57) = 4323455642275677 / 2 ^ 57"
proof (rule binary64_evalI [where n = 58 and m = "8646911284551354"])
  show "rne ((1441151880758559 / 2 ^ 56 + 1441151880758559 / 2 ^ 57) * 2 ^ 58) = 8646911284551354"
    by (rule rne_eqI) simp_all
qed simp_all

lemma b64_sum_sq: "binary64 (1351079888211149 / 2 ^ 52 * (1351079888211149 / 2 ^ 52)) = 1621295865853379 / 2 ^ 54"
proof (rule binary64_evalI [where n = 56 and m = "6485183463413516"])
  show "rne ((1351079888211149 / 2 ^ 52 * (1351079888211149 / 2 ^ 52)) * 2 ^ 56) = 6485183463413516"
    by (rule rne_eqI) simp_all
qed simp_all

lemma b64_sum_sq_n: "binary64 (1621295865853379 / 2 ^ 54 / 3) = 8646911284551355 / 2 ^ 58"
proof (rule binary64_evalI [where n = 58 and m = "8646911284551355"])
  show "rne ((1621295865853379 / 2 ^ 54 / 3) * 2 ^ 58) = 8646911284551355"
    by (rule rne_eqI) simp_all
qed simp_all

lemma b64_dev: "binary64 (4323455642275677 / 2 ^ 57 - 8646911284551355 / 2 ^ 58) = - (1 / 2 ^ 58)"
proof (rule binary64_evalI [where n = 110 and m = "- 4503599627370496"])
  show "rne ((4323455642275677 / 2 ^ 57 - 8646911284551355 / 2 ^ 58) * 2 ^ 110) = - 4503599627370496"
    by (rule rne_eqI) simp_all
qed simp_all

lemma b64_dev_sq: "binary64 (- (1 / 2 ^ 58) * - (1 / 2 ^ 58)) = 1 / 2 ^ 116"
proof (rule binary64_evalI [where n = 168 and m = "4503599627370496"])
  show "rne ((- (1 / 2 ^ 58) * - (1 / 2 ^ 58)) * 2 ^ 168) = 4503599627370496"
    by (rule rne_eqI) simp_all
qed simp_all

lemma b64_den: "binary64 (1 / 2 ^ 58) = 1 / 2 ^ 58"
proof (rule binary64_evalI [where n = 110 and m = "4503599627370496"])
  show "rne ((1 / 2 ^ 58) * 2 ^ 110) = 4503599627370496"
    by (rule rne_eqI) simp_all
qed simp_all

lemma b64_quot: "binary64 (- (1 / 2 ^ 58) / (1 / 2 ^ 58)) = - 1"
proof (rule binary64_evalI [where n = 52 and m = "- 4503599627370496"])
  show "rne ((- (1 / 2 ^ 58) / (1 / 2 ^ 58)) * 2 ^ 52) = - 4503599627370496"
    by (rule rne_eqI) simp_all
qed simp_all

lemma b64_i1: "binary64 (0 + 1) = 1"
proof (rule binary64_evalI [where n = 52 and m = "4503599627370496"])
  show "rne ((0 + 1) * 2 ^ 52) = 4503599627370496"
    by (rule rne_eqI) simp_all
qed simp_all

lemma b64_i3: "binary64 (1 + 2) = 3"
proof (rule binary64_evalI [where n = 51 and m = "6755399441055744"])
  show "rne ((1 + 2) * 2 ^ 51) = 6755399441055744"
    by (rule rne_eqI) simp_all
qed simp_all

lemma b64_i6: "binary64 (3 + 3) = 6"
proof (rule binary64_evalI [where n = 50 and m = "6755399441055744"])
  show "rne ((3 + 3) * 2 ^ 50) = 6755399441055744"
    by (rule rne_eqI) simp_all
qed simp_all

lemma b64_m1: "binary64 (1 * 1) = 1"
proof (rule binary64_evalI [where n = 52 and m = "4503599627370496"])
  show "rne ((1 * 1) * 2 ^ 52) = 4503599627370496"
    by (rule rne_eqI) simp_all
qed simp_all

lemma b64_m4: "binary64 (2 * 2) = 4"
proof (rule binary64_evalI [where n = 50 and m = "4503599627370496"])
  show "rne ((2 * 2) * 2 ^ 50) = 4503599627370496"
    by (rule rne_eqI) simp_all
qed simp_all

lemma b64_m9: "binary64 (3 * 3) = 9"
proof (rule binary64_evalI [where n = 49 and m = "5066549580791808"])
  show "rne ((3 * 3) * 2 ^ 49) = 5066549580791808"
    by (rule rne_eqI) simp_all
qed simp_all

lemma b64_j5: "binary64 (1 + 4) = 5"
proof (rule binary64_evalI [where n = 50 and m = "5629499534213120"])
  show "rne ((1 + 4) * 2 ^ 50) = 5629499534213120"
    by (rule rne_eqI) simp_all
qed simp_all

lemma b64_j14: "binary64 (5 + 9) = 14"
proof (rule binary64_evalI [where n = 49 and m = "7881299347898368"])
  show "rne ((5 + 9) * 2 ^ 49) = 7881299347898368"
    by (rule rne_eqI) simp_all
qed simp_all

lemma b64_m36: "binary64 (6 * 6) = 36"
proof (rule binary64_evalI [where n = 47 and m = "5066549580791808"])
  show "rne ((6 * 6) * 2 ^ 47) = 5066549580791808"
    by (rule rne_eqI) simp_all
qed simp_all

lemma b64_d12: "binary64 (36 / 3) = 12"
proof (rule binary64_evalI [where n = 49 and m = "6755399441055744"])
  show "rne ((36 / 3) * 2 ^ 49) = 6755399441055744"
    by (rule rne_eqI) simp_all
qed simp_all

lemma b64_s2: "binary64 (14 - 12) = 2"
proof (rule binary64_evalI [where n = 51 and m = "4503599627370496"])
  show "rne ((14 - 12) * 2 ^ 51) = 4503599627370496"
    by (rule rne_eqI) simp_all
qed simp_all

lemma b64_rad_neg: "binary64 (- (1 / 2 ^ 58) * 2) = - (1 / 2 ^ 57)"
proof (rule binary64_evalI [where n = 109 and m = "- 4503599627370496"])
  show "rne ((- (1 / 2 ^ 58) * 2) * 2 ^ 109) = - 4503599627370496"
    by (rule rne_eqI) simp_all
qed simp_all








lemma b64_bps_100: "binary64 (100 / 10000) = 5764607523034235 / 2 ^ 59"
proof (rule binary64_evalI [where n = 59 and m = "5764607523034235"])
  show "rne ((100 / 10000) * 2 ^ 59) = 5764607523034235"
    by (rule rne_eqI) simp_all
qed simp_all

lemma b64_bps_200: "binary64 (200 / 10000) = 5764607523034235 / 2 ^ 58"
proof (rule binary64_evalI [where n = 58 and m = "5764607523034235"])
  show "rne ((200 / 10000) * 2 ^ 58) = 5764607523034235"
    by (rule rne_eqI) simp_all
qed simp_all

lemma b64_one_minus_sl: "binary64 (1 - 5764607523034235 / 2 ^ 59) = 4458563631096791 / 2 ^ 52"
proof (rule binary64_evalI [where n = 53 and m = "8917127262193582"])
  show "rne ((1 - 5764607523034235 / 2 ^ 59) * 2 ^ 53) = 8917127262193582"
    by (rule rne_eqI) simp_all
qed simp_all

lemma b64_one_plus_tp: "binary64 (1 + 5764607523034235 / 2 ^ 58) = 2296835809958953 / 2 ^ 51"
proof (rule binary64_evalI [where n = 52 and m = "4593671619917906"])
  show "rne ((1 + 5764607523034235 / 2 ^ 58) * 2 ^ 52) = 4593671619917906"
    by (rule rne_eqI) simp_all
qed simp_all

lemma b64_one_plus_sl: "binary64 (1 + 5764607523034235 / 2 ^ 59) = 4548635623644201 / 2 ^ 52"
proof (rule binary64_evalI [where n = 52 and m = "4548635623644201"])
  show "rne ((1 + 5764607523034235 / 2 ^ 59) * 2 ^ 52) = 4548635623644201"
    by (rule rne_eqI) simp_all
qed simp_all

lemma b64_one_minus_tp: "binary64 (1 - 5764607523034235 / 2 ^ 58) = 2206763817411543 / 2 ^ 51"
proof (rule binary64_evalI [where n = 53 and m = "8827055269646172"])
  show "rne ((1 - 5764607523034235 / 2 ^ 58) * 2 ^ 53) = 8827055269646172"
    by (rule rne_eqI) simp_all
qed simp_all

lemma b64_stop_buy_100: "binary64 (100 * (4458563631096791 / 2 ^ 52)) = 99"
proof (rule binary64_evalI [where n = 46 and m = "6966505673588736"])
  show "rne ((100 * (4458563631096791 / 2 ^ 52)) * 2 ^ 46) = 6966505673588736"
    by (rule rne_eqI) simp_all
qed simp_all

lemma b64_take_buy_100: "binary64 (100 * (2296835809958953 / 2 ^ 51)) = 102"
proof (rule binary64_evalI [where n = 46 and m = "7177611906121728"])
  show "rne ((100 * (2296835809958953 / 2 ^ 51)) * 2 ^ 46) = 7177611906121728"
    by (rule rne_eqI) simp_all
qed simp_all

lemma b64_stop_sell_100: "binary64 (100 * (4548635623644201 / 2 ^ 52)) = 101"
proof (rule binary64_evalI [where n = 46 and m = "7107243161944064"])
  show "rne ((100 * (4548635623644201 / 2 ^ 52)) * 2 ^ 46) = 7107243161944064"
    by (rule rne_eqI) simp_all
qed simp_all

lemma b64_take_sell_100: "binary64 (100 * (2206763817411543 / 2 ^ 51)) = 98"
proof (rule binary64_evalI [where n = 46 and m = "6896136929411072"])
  show "rne ((100 * (2206763817411543 / 2 ^ 51)) * 2 ^ 46) = 6896136929411072"
    by (rule rne_eqI) simp_all
qed simp_all


section \<open>Properties of the risk manager\<close>

subsection \<open>Stops\<close>










lemma computeStops_100_fallback:
  "computeStops default_risk 100 buy (Some 0) = \<lparr>stopLoss = 99, takeProfit = 102\<rparr>"
  "computeStops default_risk 100 buy None = \<lparr>stopLoss = 99, takeProfit = 102\<rparr>"
  "computeStops default_risk 100 sell None = \<lparr>stopLoss = 101, takeProfit = 98\<rparr>"
proof -
  have c: "(truthy (Some 0) \<and> (100::real) \<noteq> 0) = False"
    "(truthy None \<and> (100::real) \<noteq> 0) = False"
    by (simp_all add: truthy_def)
  have cfg: "stopLossBps default_risk = 100" "takeProfitBps default_risk = 200"
    by (simp_all add: default_risk_def)
  have ne: "(sell = buy) = False" by simp
  show "computeStops default_risk 100 buy (Some 0) = \<lparr>stopLoss = 99, takeProfit = 102\<rparr>"
    unfolding computeStops_def c cfg
    by (simp only: Let_def if_False if_True simp_thms fsub_def fadd_def fmul_def fdiv_def
        bps_def b64_bps_100 b64_bps_200 b64_one_minus_sl b64_one_plus_tp b64_stop_buy_100
        b64_take_buy_100)
  show "computeStops default_risk 100 buy None = \<lparr>stopLoss = 99, takeProfit = 102\<rparr>"
    unfolding computeStops_def c cfg
    by (simp only: Let_def if_False if_True simp_thms fsub_def fadd_def fmul_def fdiv_def
        bps_def b64_bps_100 b64_bps_200 b64_one_minus_sl b64_one_plus_tp b64_stop_buy_100
        b64_take_buy_100)
  show "computeStops default_risk 100 sell None = \<lparr>stopLoss = 101, takeProfit = 98\<rparr>"
    unfolding computeStops_def c cfg
    by (simp only: Let_def if_False if_True simp_thms ne fsub_def fadd_def fmul_def fdiv_def
        bps_def b64_bps_100 b64_bps_200 b64_one_plus_sl b64_one_minus_tp b64_stop_sell_100
        b64_take_sell_100)
qed




subsection \<open>Correlation\<close>

text \<open>
  Claim C10.  For two return series of unequal length \<open>calculateCorrelation\<close> returns 0:
  the mismatch takes the same early return as a series of fewer than two points, and no
  common window is cut out.
\<close>

theorem calculateCorrelation_length_mismatch:
  "length returns1 \<noteq> length returns2 \<Longrightarrow> calculateCorrelation returns1 returns2 = Some 0"
  by (simp add: calculateCorrelation_def)

theorem calculateCorrelation_length_mismatch_witness:
  "length [1, 2, 3 :: real] \<noteq> length [1, 2 :: real]
   \<and> calculateCorrelation [1, 2, 3] [1, 2] = Some 0"
  using calculateCorrelation_length_mismatch [of "[1, 2, 3]" "[1, 2]"] by simp

text \<open>The result is the same, \<^verbatim>\<open>NaN\<close> included, when the two series are exchanged.\<close>

lemma reduce_psum_commute:
  "reduce (\<lambda>acc (val, r2). fadd acc (fmul val r2)) s (zip xs ys)
     = reduce (\<lambda>acc (val, r2). fadd acc (fmul val r2)) s (zip ys xs)"
  unfolding reduce_def
proof (induction xs arbitrary: ys s)
  case Nil
  then show ?case by simp
next
  case (Cons a xs)
  then show ?case by (cases ys) (simp_all add: fmul_def mult.commute)
qed

lemma calculateCorrelation_commute:
  "calculateCorrelation A B = calculateCorrelation B A"
proof (cases "length A = length B")
  case False
  then show ?thesis by (auto simp: calculateCorrelation_def)
next
  case True
  have m: "fmul a b = fmul b a" for a b by (simp add: fmul_def mult.commute)
  note p = reduce_psum_commute [of 0 A B]
  note m1 = m [of "sumsq_dev A" "sumsq_dev B"]
  note m2 = m [of "reduce (\<lambda>a b. fadd a b) 0 A" "reduce (\<lambda>a b. fadd a b) 0 B"]
  show ?thesis
    unfolding calculateCorrelation_def Let_def
    by (simp only: True p m1 m2)
qed

text \<open>The sums of the code over the constant series of three times 0.1, and over 1, 2, 3.\<close>

lemma d01_is_literal: "binary64 (1 / 10) = d01"
  unfolding d01_def by (rule b64_tenth)

lemma sum_tenths:
  "reduce (\<lambda>a b. fadd a b) 0 [d01, d01, d01] = 1351079888211149 / 2 ^ 52"
  unfolding d01_def by (simp only: reduce_def foldl.simps fadd_def b64_sum_1 b64_sum_2 b64_sum_3)

lemma sumsq_tenths:
  "reduce (\<lambda>a b. fadd a (fmul b b)) 0 [d01, d01, d01] = 4323455642275677 / 2 ^ 57"
  unfolding d01_def
  by (simp only: reduce_def foldl.simps fadd_def fmul_def b64_sq_0 b64_sumsq_1 b64_sumsq_2
      b64_sumsq_3)

lemma psum_tenths:
  "reduce (\<lambda>acc (val, r2). fadd acc (fmul val r2)) 0 (zip [d01, d01, d01] [d01, d01, d01])
     = 4323455642275677 / 2 ^ 57"
  unfolding d01_def
  by (simp only: reduce_def zip_Cons_Cons zip_Nil foldl.simps prod.case fadd_def fmul_def
      b64_sq_0 b64_sumsq_1 b64_sumsq_2 b64_sumsq_3)

lemma length_three: "real (length [a, b, c :: real]) = 3"
  by simp

lemma guard_three:
  "(length [a, b, c :: real] \<noteq> length [a', b', c' :: real] \<or> length [a, b, c] < 2) = False"
  by simp

lemma sumsq_dev_tenths: "sumsq_dev [d01, d01, d01] = - (1 / 2 ^ 58)"
  unfolding sumsq_dev_def sum_tenths sumsq_tenths length_three
  by (simp only: fsub_def fdiv_def fmul_def b64_sum_sq b64_sum_sq_n b64_dev)

lemma sum_123: "reduce (\<lambda>a b. fadd a b) 0 [1, 2, 3] = 6"
  by (simp only: reduce_def foldl.simps fadd_def b64_i1 b64_i3 b64_i6)

lemma sumsq_123: "reduce (\<lambda>a b. fadd a (fmul b b)) 0 [1, 2, 3] = 14"
  by (simp only: reduce_def foldl.simps fadd_def fmul_def b64_m1 b64_m4 b64_m9 b64_i1 b64_j5
      b64_j14)

lemma sumsq_dev_123: "sumsq_dev [1, 2, 3] = 2"
  unfolding sumsq_dev_def sum_123 sumsq_123 length_three
  by (simp only: fsub_def fdiv_def fmul_def b64_m36 b64_d12 b64_s2)

lemma sqrt_116: "sqrt (1 / 2 ^ 116) = 1 / 2 ^ 58"
proof -
  have "(1 / 2 ^ 58 :: real)\<^sup>2 = 1 / 2 ^ 116" by (simp add: power2_eq_square)
  then have "sqrt (1 / 2 ^ 116) = \<bar>1 / 2 ^ 58 :: real\<bar>" by (metis real_sqrt_abs)
  then show ?thesis by simp
qed

lemma correlation_tenths_self:
  "calculateCorrelation [d01, d01, d01] [d01, d01, d01] = Some (- 1)"
proof -
  have neg: "((1 / 2 ^ 116 :: real) < 0) = False" by simp
  have s: "js_sqrt (1 / 2 ^ 116) = Some (1 / 2 ^ 58)"
    unfolding js_sqrt_def neg by (simp only: if_False sqrt_116 b64_den)
  have nz: "((1 / 2 ^ 58 :: real) = 0) = False" by simp
  show ?thesis
    unfolding calculateCorrelation_def guard_three sum_tenths psum_tenths sumsq_dev_tenths
      length_three
    by (simp only: Let_def if_False fsub_def fdiv_def fmul_def b64_sum_sq b64_sum_sq_n b64_dev
        b64_dev_sq s option.case nz b64_quot)
qed

lemma correlation_tenths_123:
  "calculateCorrelation [d01, d01, d01] [1, 2, 3] = None"
proof -
  have neg: "(- (1 / 2 ^ 57) < (0 :: real)) = True" by simp
  have s: "js_sqrt (- (1 / 2 ^ 57)) = None"
    unfolding js_sqrt_def neg by (simp only: if_True)
  show ?thesis
    unfolding calculateCorrelation_def guard_three sumsq_dev_tenths sumsq_dev_123
    by (simp only: Let_def if_False fmul_def b64_rad_neg s option.case)
qed

text \<open>
  Claim C7, at the constant series \<^verbatim>\<open>[0.1, 0.1, 0.1]\<close>.  Its variance is zero, so the
  claim gives the sentinel 0 for its correlation with any series of three points.  In the
  code the factor \<^verbatim>\<open>sumSq - sum * sum / n\<close> of this series is not 0 but
  \<open>- (1 / 2 ^ 58)\<close>: the test \<^verbatim>\<open>den === 0\<close> fails, and the code returns \<open>- 1\<close> for the
  series with itself and \<^verbatim>\<open>NaN\<close> (the root of a negative number) for the series with
  1, 2, 3.
\<close>

theorem calculateCorrelation_constant_series:
  "binary64 (1 / 10) = d01
   \<and> sumsq_dev [d01, d01, d01] = - (1 / 2 ^ 58)
   \<and> calculateCorrelation [d01, d01, d01] [d01, d01, d01] = Some (- 1)
   \<and> calculateCorrelation [d01, d01, d01] [1, 2, 3] = None"
  by (simp only: d01_is_literal sumsq_dev_tenths correlation_tenths_self correlation_tenths_123
      simp_thms)

theorem calculateCorrelation_constant_series_witness:
  "length [d01, d01, d01] = length [1, 2, 3 :: real]
   \<and> \<not> length [d01, d01, d01] < 2
   \<and> calculateCorrelation [d01, d01, d01] [d01, d01, d01] \<noteq> Some 0
   \<and> calculateCorrelation [d01, d01, d01] [1, 2, 3] \<noteq> Some 0"
  using calculateCorrelation_constant_series by simp

section \<open>Properties of the indicators and the technical analyzer\<close>

lemma rsi_step_losses:
  "\<forall>i \<in> set is. values ! (i - 1) < values ! i \<Longrightarrow>
   snd (foldl (\<lambda>(gains, losses) i.
              (let change = values ! i - values ! (i - 1)
               in if change > 0 then (gains + change, losses) else (gains, losses - change)))
       acc is) = snd (acc :: real \<times> real)"
  by (induction "is" arbitrary: acc) (auto simp: Let_def case_prod_beta)

lemma rsi_sums_increasing:
  assumes "sorted_wrt (<) values" "period < length values"
  shows "snd (rsi_sums values period) = 0"
proof -
  have "\<forall>i \<in> set [length values - period ..< length values]. values ! (i - 1) < values ! i"
  proof
    fix i assume "i \<in> set [length values - period ..< length values]"
    then have "i - 1 < i" "i < length values" using assms(2) by auto
    then show "values ! (i - 1) < values ! i"
      using assms(1) by (simp add: sorted_wrt_iff_nth_less)
  qed
  from rsi_step_losses [OF this, of "(0, 0)"] show ?thesis unfolding rsi_sums_def by simp
qed

text \<open>
  Claim C6.  For a period of at least 1, \<open>rsi\<close> returns exactly 100 on every strictly
  increasing series longer than the period, and more generally whenever the trailing
  average loss \<^verbatim>\<open>losses / period\<close> is zero.
\<close>

theorem rsi_all_gains:
  assumes "0 < period" "period < length values"
  shows "(sorted_wrt (<) values \<longrightarrow> rsi values period = Some 100)
       \<and> (snd (rsi_sums values period) / real period = 0 \<longrightarrow> rsi values period = Some 100)"
  using assms rsi_sums_increasing [of "values" period]
  by (auto simp: rsi_def Let_def)

theorem rsi_all_gains_witness:
  "rsi [1, 2, 3, 5] 3 = Some 100 \<and> rsi [4, 4, 4, 5] 3 = Some 100"
proof -
  have "sorted_wrt (<) [1, 2, 3, 5 :: real]" by simp
  moreover have "snd (rsi_sums [4, 4, 4, 5] 3) / real 3 = 0"
    by (simp add: rsi_sums_def upt_rec Let_def)
  ultimately show ?thesis
    using rsi_all_gains [of 3 "[1, 2, 3, 5]"] rsi_all_gains [of 3 "[4, 4, 4, 5]"] by simp
qed

lemma sqrt9: "sqrt 9 = 3"
  using real_sqrt_abs [of 3] by simp

text \<open>
  Claim C5, at \<open>falling_closes\<close>.  The Bollinger band and the RSI are both available, the
  last price 90 is strictly below the lower band 93 and the RSI is 0, strictly below 30:
  the claim gives a bias of +1.  The analyzer's test \<^verbatim>\<open>rsi5 && rsi5 < 30\<close> reads the
  RSI 0 as ``no RSI'', and the bias it computes is 0.
\<close>

theorem mrBias_falling_closes:
  "bollinger falling_closes 20 2 = Some \<lparr>middle = 99, upper = 105, lower = 93, std = 3\<rparr>
   \<and> rsi falling_closes 14 = Some 0
   \<and> last_elem falling_closes = Some 90
   \<and> mrBias falling_closes = 0"
  by (simp add: mrBias_def meanReversionBias_def js_and_num_def last_elem_def rsi_def
      rsi_sums_def Let_def upt_rec bollinger_def reduce_def sqrt9 falling_closes_def)

text \<open>Away from an RSI of exactly 0 the analyzer's bias is the one the claim describes.\<close>

lemma mrBias_rsi_nonzero:
  assumes "bollinger closes5 20 2 = Some bb" "rsi closes5 14 = Some r" "r \<noteq> 0"
  shows "mrBias closes5 =
     (if last closes5 > upper bb \<and> r > 70 then - 1
      else if last closes5 < lower bb \<and> r < 30 then 1 else 0)"
proof -
  have "closes5 \<noteq> []" using assms(2) by (auto simp: rsi_def)
  then show ?thesis
    using assms by (simp add: mrBias_def meanReversionBias_def js_and_num_def last_elem_def)
qed

section \<open>Properties of the sentiment engine\<close>

lemma exp_45_bounds: "2 < exp (4 / 5 :: real) \<and> exp (4 / 5 :: real) \<le> 11 / 4"
proof
  have "1 + (4 / 5) + (4 / 5)\<^sup>2 / 2 \<le> exp (4 / 5 :: real)"
    by (rule exp_lower_Taylor_quadratic) simp
  then show "2 < exp (4 / 5 :: real)" by (simp add: power2_eq_square)
  have "exp (4 / 5 :: real) \<le> 1 + (4 / 5) + (4 / 5)\<^sup>2"
    by (rule exp_bound) simp_all
  then show "exp (4 / 5 :: real) \<le> 11 / 4" by (simp add: power2_eq_square)
qed

lemma tanh_25_bounds: "1 / 3 < tanh (2 / 5 :: real) \<and> tanh (2 / 5 :: real) \<le> 7 / 15"
proof -
  define E where "E = exp (4 / 5 :: real)"
  have E: "2 < E" "E \<le> 11 / 4" using exp_45_bounds by (simp_all add: E_def)
  have "exp (- (4 / 5) :: real) = 1 / E" by (simp add: E_def exp_minus inverse_eq_divide)
  then have "tanh (2 / 5 :: real) = (1 - 1 / E) / (1 + 1 / E)"
    by (simp add: tanh_real_altdef)
  also have "\<dots> = (E - 1) / (E + 1)"
  proof -
    have "E \<noteq> 0" "E + 1 \<noteq> 0" using E by simp_all
    then show ?thesis by (simp add: divide_simps)
  qed
  finally have t: "tanh (2 / 5 :: real) = (E - 1) / (E + 1)" .
  have "1 / 3 < (E - 1) / (E + 1)" using E by (simp add: field_simps)
  moreover have "(E - 1) / (E + 1) \<le> 7 / 15" using E by (simp add: field_simps)
  ultimately show ?thesis unfolding t by simp
qed

lemma js_round_eqI:
  "of_int n \<le> x + 1 / 2 \<Longrightarrow> x + 1 / 2 < of_int n + 1 \<Longrightarrow> js_round x = of_int n"
  unfolding js_round_def by (simp add: floor_unique)

lemma gas_round: "js_round (15 / 100 * tanh ((0 - 20) / 50 :: real) * 50 + 50) = 47"
proof -
  have g: "tanh ((0 - 20) / 50 :: real) = - tanh (2 / 5)"
  proof -
    have "((0 - 20) / 50 :: real) = - (2 / 5)" by simp
    then show ?thesis by (simp only: tanh_minus)
  qed
  have "js_round (15 / 100 * (- tanh (2 / 5 :: real)) * 50 + 50) = of_int 47"
    using tanh_25_bounds by (intro js_round_eqI) simp_all
  then show ?thesis unfolding g by simp
qed

lemma scoreOnChain_absent: "scoreOnChain None = 47" "scoreOnChain (Some empty_onchain) = 47"
proof -
  have "scoreOnChain None
        = clamp (js_round (15 / 100 * tanh ((0 - 20) / 50 :: real) * 50 + 50)) 0 100"
    by (simp add: scoreOnChain_def dflt_def empty_onchain_def clamp_def Let_def)
  then show "scoreOnChain None = 47" unfolding gas_round by (simp add: clamp_def)
  then show "scoreOnChain (Some empty_onchain) = 47"
    by (simp add: scoreOnChain_def dflt_def)
qed

lemma scoreSocial_absent: "scoreSocial None = 50" "scoreSocial (Some empty_social) = 50"
  by (simp_all add: scoreSocial_def dflt_def empty_social_def clamp_def js_round_def Let_def)

lemma scoreMarketStructure_absent:
  "scoreMarketStructure None lastPrice = 50"
  "scoreMarketStructure (Some empty_market) lastPrice = 50"
proof -
  show "scoreMarketStructure None lastPrice = 50"
    apply (simp add: scoreMarketStructure_def dflt_def empty_market_def empty_orderbook_def
        Let_def)
    apply (simp add: clamp_def js_round_def)
    done
  then show "scoreMarketStructure (Some empty_market) lastPrice = 50"
    by (simp add: scoreMarketStructure_def dflt_def)
qed

lemma fuseSentiment_no_events:
  "fuseSentiment None None None lastPrice =
     \<lparr>score = 49, label = neutral, socialScore = 50, onchainScore = 47, structureScore = 50\<rparr>"
  by (simp add: fuseSentiment_def scoreSocial_absent scoreOnChain_absent
      scoreMarketStructure_absent js_round_def Let_def)

lemma fuseSentiment_empty_objects:
  "fuseSentiment (Some empty_social) (Some empty_onchain) (Some empty_market) lastPrice =
     \<lparr>score = 49, label = neutral, socialScore = 50, onchainScore = 47, structureScore = 50\<rparr>"
  by (simp add: fuseSentiment_def scoreSocial_absent scoreOnChain_absent
      scoreMarketStructure_absent js_round_def Let_def)

text \<open>
  Claim C4, with the social, on-chain and market-structure inputs all absent (the three
  objects missing, or present as \<^verbatim>\<open>{}\<close>).  The claim gives 50 for the three
  sub-scores and for the blended score.  The code gives 50 for the social and the
  market-structure sub-score, but 47 for the on-chain one (the absent gas price defaults
  to 0, which the gas term reads as 20 gwei below its baseline), and 49 for the blended
  score; the label is \<open>neutral\<close>.
\<close>

theorem fuseSentiment_absent_inputs:
  "fuseSentiment None None None lastPrice =
     \<lparr>score = 49, label = neutral, socialScore = 50, onchainScore = 47, structureScore = 50\<rparr>
   \<and> fuseSentiment (Some empty_social) (Some empty_onchain) (Some empty_market) lastPrice =
     \<lparr>score = 49, label = neutral, socialScore = 50, onchainScore = 47, structureScore = 50\<rparr>"
  by (simp add: fuseSentiment_no_events fuseSentiment_empty_objects)

section \<open>Properties of the orchestrator\<close>

subsection \<open>Evaluation at the concrete inputs\<close>

lemma toLowerCase_tags:
  "toLowerCase ''tech'' = ''tech''" "toLowerCase ''sentiment'' = ''sentiment''"
  "toLowerCase ''true'' = ''true''" "toLowerCase [] = []"
  by (simp_all add: toLowerCase_def lower_char_def)

lemma computePerfWeights_empty:
  "computePerfWeights [] = \<lparr>w_tech = 1 / 2, w_sentiment = 1 / 2\<rparr>"
  by (simp add: computePerfWeights_def perf_score_def js_or_def Let_def)

lemma computePerfWeights_bullish:
  "computePerfWeights
        [\<lparr>strategy = Some ''tech'', success = False, rr = Some 0\<rparr>,
         \<lparr>strategy = Some ''sentiment'', success = True, rr = Some 0\<rparr>]
   = \<lparr>w_tech = 0, w_sentiment = 1\<rparr>"
  apply (simp add: computePerfWeights_def strategy_key_def dflt_def toLowerCase_tags Let_def)
  apply (simp add: perf_score_def reduce_def js_or_opt_def js_or_def Let_def)
  done

lemma short_indicators:
  "rsi [100] 14 = None" "macd [100] 12 26 9 = None" "bollinger [100] 20 2 = None"
  "ema [100] 9 = None" "ema [100] 21 = None" "ema [100] 50 = None" "atr [candle100] 14 = None"
  by (simp_all add: rsi_def macd_def bollinger_def ema_def atr_def)

lemma tech_one_candle:
  "analyzeMultiTimeframe
     \<lparr>candles5m = Some [candle100], candles1h = Some [candle100], candles4h = Some [candle100]\<rparr>
   = \<lparr>tech_action = HOLD, tech_confidence = 0, tech_size = 13 / 100,
      tech_ctx = \<lparr>rsi5m = None, rsi1h = None, rsi4h = None, macd1h = None, macd4h = None,
                  bb5m = None, bb1h = None, ema9_1h = None, ema21_1h = None, ema50_1h = None,
                  atr1h = None, reversionTarget = Some 100\<rparr>\<rparr>"
proof -
  have c: "toCloses (Some [candle100]) = [100]" "dflt (Some [candle100]) [] = [candle100]"
    by (simp_all add: toCloses_def dflt_def candle100_def)
  show ?thesis
    unfolding analyzeMultiTimeframe_def
    apply (simp only: multi_tf.simps c short_indicators Let_def)
    apply (simp add: last_elem_def meanReversionBias_def trendFollowingBias_def
        truthy_def js_or_opt_def normalize_def toFixed2_def)
    done
qed

lemma fuseSentiment_bullish:
  "fuseSentiment
      (Some \<lparr>twitterScore = Some 1, telegramScore = Some 1, trendsScore = Some 1,
              newsScore = Some 1\<rparr>)
      (Some \<lparr>whaleInflowUsd = None, whaleOutflowUsd = None, exchangeNetflow = Some (- 1),
              gasPriceGwei = Some 20, activeAddrsDelta = Some 1\<rparr>)
      (Some (empty_market
         \<lparr>orderbook := Some \<lparr>imbalance = Some 1, bidDepth = None, askDepth = None\<rparr>\<rparr>)) 100
   = \<lparr>score = 82, label = bullish, socialScore = 100, onchainScore = 70, structureScore = 63\<rparr>"
proof -
  have a: "scoreSocial (Some \<lparr>twitterScore = Some 1, telegramScore = Some 1,
             trendsScore = Some 1, newsScore = Some 1\<rparr>) = 100"
    apply (simp add: scoreSocial_def dflt_def Let_def)
    apply (simp add: clamp_def js_round_def)
    done
  have b: "scoreOnChain (Some \<lparr>whaleInflowUsd = None, whaleOutflowUsd = None,
             exchangeNetflow = Some (- 1), gasPriceGwei = Some 20,
             activeAddrsDelta = Some 1\<rparr>) = 70"
    apply (simp add: scoreOnChain_def dflt_def Let_def)
    apply (simp add: clamp_def js_round_def)
    done
  have c: "scoreMarketStructure (Some (empty_market
             \<lparr>orderbook := Some \<lparr>imbalance = Some 1, bidDepth = None, askDepth = None\<rparr>\<rparr>))
             100 = 63"
    apply (simp add: scoreMarketStructure_def dflt_def empty_market_def Let_def)
    apply (simp add: clamp_def js_round_def)
    done
  show ?thesis
    apply (simp only: fuseSentiment_def a b c Let_def)
    apply (simp add: js_round_def)
    done
qed

lemma quiet_fields:
  "candles quiet_input = Some [candle100]" "multiTf quiet_input = None"
  "events quiet_input = None" "positions quiet_input = None" "recentTrades quiet_input = None"
  "symbol quiet_input = ''BTC-USD''"
  by (simp_all add: quiet_input_def)

lemma lastCloseOf_quiet: "lastCloseOf quiet_input = 100"
  by (simp add: lastCloseOf_def quiet_fields last_elem_def candle100_def js_or_opt_def js_or_def)

lemma localDecision_quiet:
  "localDecision default_risk quiet_input =
     \<lparr>l_lastClose = 100, l_atr1 = 0,
      l_regime = \<lparr>highVol = False, trending = False, liquid = False\<rparr>,
      l_action = hold, l_confidence = 21 / 2000, l_equity = 10000, l_sizeUsd = 0\<rparr>"
  unfolding localDecision_def quiet_fields lastCloseOf_quiet
  apply (simp only: Let_def dflt_def option.case tech_one_candle fuseSentiment_no_events
      computePerfWeights_empty Option.bind.simps tech_signal.simps tech_context.simps
      sentiment.simps perf_weights.simps)
  apply (simp add: js_or_opt_def js_or_def detectRegime_def dflt_def)
  apply (simp add: positionSizeUsd_def kellyFraction_def capOrderSizeUsd_def default_risk_def
      Let_def)
  done

lemma bullish_fields:
  "candles bullish_input = Some [candle100]" "multiTf bullish_input = None"
  "events bullish_input = Some
     \<lparr>social = Some \<lparr>twitterScore = Some 1, telegramScore = Some 1, trendsScore = Some 1,
                       newsScore = Some 1\<rparr>,
      onchain = Some \<lparr>whaleInflowUsd = None, whaleOutflowUsd = None,
                        exchangeNetflow = Some (- 1), gasPriceGwei = Some 20,
                        activeAddrsDelta = Some 1\<rparr>,
      market = Some (empty_market
        \<lparr>orderbook := Some \<lparr>imbalance = Some 1, bidDepth = None, askDepth = None\<rparr>\<rparr>)\<rparr>"
  "positions bullish_input = Some \<lparr>equityUsd = Some 10000\<rparr>"
  "recentTrades bullish_input = Some
     [\<lparr>strategy = Some ''tech'', success = False, rr = Some 0\<rparr>,
      \<lparr>strategy = Some ''sentiment'', success = True, rr = Some 0\<rparr>]"
  "symbol bullish_input = ''BTC-USD''"
  by (simp_all add: bullish_input_def)

lemma lastCloseOf_bullish: "lastCloseOf bullish_input = 100"
  by (simp add: lastCloseOf_def bullish_fields last_elem_def candle100_def js_or_opt_def
      js_or_def)

lemma localDecision_bullish:
  "localDecision default_risk bullish_input =
     \<lparr>l_lastClose = 100, l_atr1 = 0,
      l_regime = \<lparr>highVol = False, trending = False, liquid = True\<rparr>,
      l_action = buy, l_confidence = 62 / 125, l_equity = 10000, l_sizeUsd = 1000\<rparr>"
  unfolding localDecision_def bullish_fields lastCloseOf_bullish
  apply (simp only: Let_def dflt_def option.case tech_one_candle fuseSentiment_bullish
      computePerfWeights_bullish Option.bind.simps tech_signal.simps tech_context.simps
      sentiment.simps perf_weights.simps events_in.simps positions_in.simps)
  apply (simp add: js_or_opt_def js_or_def detectRegime_def dflt_def empty_market_def)
  apply (simp add: positionSizeUsd_def kellyFraction_def capOrderSizeUsd_def default_risk_def
      Let_def)
  done

lemma consult_hold:
  "consultDeepSeek env_on advisory_hold =
     LlmDecision \<lparr>llm_action = HOLD, llm_confidence = Some (1 / 2), positionSizePct = Some 5,
       llm_stopLoss = 0, llm_takeProfit = 0, rationale = []\<rparr>"
  by (simp add: consultDeepSeek_def env_on_def advisory_hold_def sanitizeDecision_def
      toLowerCase_tags js_or_opt_def js_or_def Let_def)

lemma consult_buy:
  "consultDeepSeek env_on advisory_buy =
     LlmDecision \<lparr>llm_action = BUY, llm_confidence = Some (3 / 5), positionSizePct = Some 5,
       llm_stopLoss = 0, llm_takeProfit = 0, rationale = []\<rparr>"
  by (simp add: consultDeepSeek_def env_on_def advisory_buy_def sanitizeDecision_def
      toLowerCase_tags js_or_opt_def js_or_def Let_def)

lemma consult_off: "consultDeepSeek env_off http = LlmNull"
  by (simp add: consultDeepSeek_def env_off_def Let_def)

subsection \<open>The risk gate\<close>

text \<open>
  The gate of \<^verbatim>\<open>decideTrade\<close> calls both predicates on literal arguments, so its verdict
  is a function of the configuration alone.
\<close>

lemma gate_iff:
  "shouldHaltTrading cfg 0 0 (marketCircuitBreaker 0 0 0 False False)
     \<longleftrightarrow> maxDailyLossUsd cfg = 0"
  by (simp add: shouldHaltTrading_def marketCircuitBreaker_def)

lemma gate_default:
  "\<not> shouldHaltTrading default_risk 0 0 (marketCircuitBreaker 0 0 0 False False)"
  by (simp add: gate_iff default_risk_def)

lemma decideTrade_halts_iff:
  "decideTrade cfg e inp http = Inr (RiskHalt hold ''risk_halt'') \<longleftrightarrow> maxDailyLossUsd cfg = 0"
proof (cases "maxDailyLossUsd cfg = 0")
  case True
  then show ?thesis unfolding decideTrade_def Let_def gate_iff by simp
next
  case False
  then show ?thesis unfolding decideTrade_def Let_def gate_iff
    by (cases "advisoryOverlay cfg (localDecision cfg inp) (consultDeepSeek e http)") auto
qed

lemma decideTrade_bullish_off:
  "decideTrade default_risk env_off bullish_input HttpFailed =
     Inr (Decision \<lparr>d_symbol = ''BTC-USD'', d_action = buy, d_confidence = 62 / 125,
        d_sizeUsd = 1000, d_regime = \<lparr>highVol = False, trending = False, liquid = True\<rparr>,
        d_stops = \<lparr>stopLoss = 99, takeProfit = 102\<rparr>, d_llmDecision = LlmNull\<rparr>)"
  unfolding decideTrade_def
  apply (simp only: gate_default localDecision_bullish consult_off Let_def if_False)
  apply (simp add: advisoryOverlay_def bullish_fields js_or_def)
  apply (simp add: computeStops_100_fallback)
  done

text \<open>
  Claim C2, at \<open>bullish_input\<close> under the default configuration with the advisory
  overlay off.  The order-book imbalance of the input is 1, so the market circuit-breaker
  predicate holds of it and the claim gives \<^verbatim>\<open>hold\<close> with reason \<^verbatim>\<open>risk_halt\<close>.
  \<^verbatim>\<open>decideTrade\<close> evaluates the predicate at the literals 0, 0, 0 instead, passes the
  gate, computes the signals and returns a buy of 1000 USD.
\<close>

theorem decideTrade_ignores_circuit_breaker:
  "marketCircuitBreaker 0 0 (orderbookImbalanceOf bullish_input) False False
   \<and> decideTrade default_risk env_off bullish_input HttpFailed \<noteq> Inr (RiskHalt hold ''risk_halt'')
   \<and> map_sum id result_action (decideTrade default_risk env_off bullish_input HttpFailed) = Inr buy
   \<and> map_sum id result_reason (decideTrade default_risk env_off bullish_input HttpFailed) = Inr None"
proof -
  have "orderbookImbalanceOf bullish_input = 1"
    by (simp add: orderbookImbalanceOf_def bullish_fields empty_market_def dflt_def)
  then have "marketCircuitBreaker 0 0 (orderbookImbalanceOf bullish_input) False False"
    by (simp add: marketCircuitBreaker_def)
  then show ?thesis
    by (simp add: decideTrade_bullish_off result_action_def result_reason_def)
qed

subsection \<open>The advisory overlay\<close>

text \<open>
  Over inputs of the shapes modelled here (no \<^verbatim>\<open>null\<close> where the source destructures
  or dereferences), \<^verbatim>\<open>decideTrade\<close> throws in exactly one situation: the gate is
  passed, the advisory response is accepted, and it names a non-zero position size whose
  capped value is positive, so that the overlay reaches the assignment to the constant.
\<close>

lemma advisoryOverlay_throws_iff:
  "advisoryOverlay cfg L llm = Inl err \<longleftrightarrow>
     (\<exists>d p. llm = LlmDecision d \<and> overlayAccepted (l_action L) (l_confidence L) d
        \<and> positionSizePct d = Some p \<and> p \<noteq> 0 \<and> 0 < advisorySized cfg (l_equity L) p)"
  by (cases llm; cases err)
     (auto simp: advisoryOverlay_def truthy_def Let_def split: option.splits)

lemma decideTrade_throws_iff:
  "decideTrade cfg e inp http = Inl err \<longleftrightarrow>
     maxDailyLossUsd cfg \<noteq> 0 \<and>
     (\<exists>d p. consultDeepSeek e http = LlmDecision d
        \<and> overlayAccepted (l_action (localDecision cfg inp))
              (l_confidence (localDecision cfg inp)) d
        \<and> positionSizePct d = Some p \<and> p \<noteq> 0
        \<and> 0 < advisorySized cfg (l_equity (localDecision cfg inp)) p)"
proof (cases "maxDailyLossUsd cfg = 0")
  case True
  then show ?thesis by (simp add: decideTrade_def gate_iff)
next
  case False
  have "decideTrade cfg e inp http = Inl err \<longleftrightarrow>
        advisoryOverlay cfg (localDecision cfg inp) (consultDeepSeek e http) = Inl err"
    using False
    by (cases "advisoryOverlay cfg (localDecision cfg inp) (consultDeepSeek e http)")
       (auto simp: decideTrade_def gate_iff Let_def)
  then show ?thesis using False by (simp add: advisoryOverlay_throws_iff)
qed

text \<open>
  Claim C1, at \<open>bullish_input\<close> with the reply \<open>advisory_buy\<close>.  The local action is
  \<^verbatim>\<open>buy\<close> with confidence 0.496 and capped size 1000; the reply is a BUY with confidence
  0.6 and 5 percent of the equity 10000, so it is accepted and its capped size is 500.
  The claim gives an emitted \<^verbatim>\<open>sizeUsd\<close> of 500, the smaller of the two.  The code
  emits nothing: \<^verbatim>\<open>sizeUsd = Math.min(sizeUsd, sized)\<close> assigns to a \<^verbatim>\<open>const\<close> and
  throws.
\<close>

theorem decideTrade_accepted_size_not_emitted:
  "l_action (localDecision default_risk bullish_input) = buy
   \<and> l_sizeUsd (localDecision default_risk bullish_input) = 1000
   \<and> consultDeepSeek env_on advisory_buy =
        LlmDecision \<lparr>llm_action = BUY, llm_confidence = Some (3 / 5), positionSizePct = Some 5,
          llm_stopLoss = 0, llm_takeProfit = 0, rationale = []\<rparr>
   \<and> overlayAccepted buy (l_confidence (localDecision default_risk bullish_input))
        \<lparr>llm_action = BUY, llm_confidence = Some (3 / 5), positionSizePct = Some 5,
          llm_stopLoss = 0, llm_takeProfit = 0, rationale = []\<rparr>
   \<and> advisorySized default_risk (l_equity (localDecision default_risk bullish_input)) 5 = 500
   \<and> decideTrade default_risk env_on bullish_input advisory_buy = Inl TypeError"
proof -
  have acc: "overlayAccepted buy (62 / 125)
        \<lparr>llm_action = BUY, llm_confidence = Some (3 / 5), positionSizePct = Some 5,
          llm_stopLoss = 0, llm_takeProfit = 0, rationale = []\<rparr>"
    by (simp add: overlayAccepted_def js_or_opt_def js_or_def Let_def)
  have sz: "advisorySized default_risk 10000 5 = 500"
    by (simp add: advisorySized_def capOrderSizeUsd_def default_risk_def)
  have "decideTrade default_risk env_on bullish_input advisory_buy = Inl TypeError"
    unfolding decideTrade_def
    apply (simp only: gate_default localDecision_bullish consult_buy Let_def if_False)
    apply (simp add: advisoryOverlay_def acc sz truthy_def Let_def)
    done
  then show ?thesis
    by (simp add: localDecision_bullish consult_buy acc sz)
qed

text \<open>
  Claim C3, at \<open>quiet_input\<close> with the well-formed reply \<open>advisory_hold\<close>: a snapshot of
  one candle and an advisory HOLD with confidence 0.5 and position size 5.  The claim
  gives a decision record; \<^verbatim>\<open>decideTrade\<close> throws a \<^verbatim>\<open>TypeError\<close> out of the core,
  from the same assignment to the constant \<^verbatim>\<open>sizeUsd\<close>.
\<close>

theorem decideTrade_throws_on_advisory_size:
  "decideTrade default_risk env_on quiet_input advisory_hold = Inl TypeError"
  unfolding decideTrade_def
  apply (simp only: gate_default localDecision_quiet consult_hold Let_def if_False)
  apply (simp add: advisoryOverlay_def overlayAccepted_def js_or_opt_def js_or_def truthy_def
      advisorySized_def capOrderSizeUsd_def default_risk_def Let_def)
  done

subsection \<open>Stops of a hold decision\<close>

lemma l_lastClose_localDecision: "l_lastClose (localDecision cfg inp) = lastCloseOf inp"
  unfolding localDecision_def by (simp only: Let_def local_decision.select_convs)

lemma decideTrade_quiet_off:
  "decideTrade default_risk env_off quiet_input HttpFailed =
     Inr (Decision \<lparr>d_symbol = ''BTC-USD'', d_action = hold, d_confidence = 21 / 2000,
        d_sizeUsd = 0, d_regime = \<lparr>highVol = False, trending = False, liquid = False\<rparr>,
        d_stops = \<lparr>stopLoss = 99, takeProfit = 102\<rparr>, d_llmDecision = LlmNull\<rparr>)"
  unfolding decideTrade_def
  apply (simp only: gate_default localDecision_quiet consult_off Let_def if_False)
  apply (simp add: advisoryOverlay_def quiet_fields js_or_def)
  apply (simp add: computeStops_100_fallback)
  done

text \<open>
  Claim C9 as stated fails at the risk gate: under \<open>zero_loss_risk\<close> the cycle ends in
  the record \<^verbatim>\<open>{ action: 'hold', reason: 'risk_halt' }\<close>, a hold decision that carries
  no stops.
\<close>

theorem hold_without_stops:
  "decideTrade zero_loss_risk env_off quiet_input HttpFailed = Inr (RiskHalt hold ''risk_halt'')
   \<and> result_action (RiskHalt hold ''risk_halt'') = hold
   \<and> result_stops (RiskHalt hold ''risk_halt'') = None"
proof -
  have "shouldHaltTrading zero_loss_risk 0 0 (marketCircuitBreaker 0 0 0 False False)"
    by (simp add: gate_iff zero_loss_risk_def)
  then show ?thesis
    unfolding decideTrade_def Let_def by (simp add: result_action_def result_stops_def)
qed

text \<open>
  Claim C9, amended.  Every full decision record that \<^verbatim>\<open>decideTrade\<close> returns with the
  action \<^verbatim>\<open>hold\<close> carries a stops record, and it is the buy-side
  \<open>computeStops\<close> at the last close (the last 1-hour close, else the last close of
  \<^verbatim>\<open>candles\<close>, else 0) with the 1-hour ATR (0 when unavailable).
\<close>

theorem hold_decision_has_buy_stops:
  assumes "decideTrade cfg e inp http = Inr (Decision d)" "d_action d = hold"
  shows "result_stops (Decision d) =
           Some (computeStops cfg (lastCloseOf inp) buy (Some (l_atr1 (localDecision cfg inp))))"
proof -
  have ng: "\<not> shouldHaltTrading cfg 0 0 (marketCircuitBreaker 0 0 0 False False)"
  proof
    assume "shouldHaltTrading cfg 0 0 (marketCircuitBreaker 0 0 0 False False)"
    then have "decideTrade cfg e inp http = Inr (RiskHalt hold ''risk_halt'')"
      by (simp add: decideTrade_def)
    with assms(1) show False by simp
  qed
  show ?thesis
  proof (cases "advisoryOverlay cfg (localDecision cfg inp) (consultDeepSeek e http)")
    case (Inl err)
    with ng have "decideTrade cfg e inp http = Inl err"
      by (simp add: decideTrade_def)
    with assms(1) show ?thesis by simp
  next
    case (Inr t)
    obtain action confidence sizeUsd where t: "t = (action, confidence, sizeUsd)"
      by (cases t)
    from ng Inr t assms(1) have dd:
      "d = \<lparr>d_symbol = symbol inp, d_action = action, d_confidence = confidence,
            d_sizeUsd = sizeUsd, d_regime = l_regime (localDecision cfg inp),
            d_stops = computeStops cfg (js_or (l_lastClose (localDecision cfg inp)) 0)
                        (if action = sell then sell else buy)
                        (Some (l_atr1 (localDecision cfg inp))),
            d_llmDecision = consultDeepSeek e http\<rparr>"
      by (simp add: decideTrade_def Let_def)
    from dd assms(2) have "action = hold" by simp
    with dd show ?thesis
      by (simp add: result_stops_def l_lastClose_localDecision js_or_def)
  qed
qed

theorem hold_decision_has_buy_stops_witness:
  "decideTrade default_risk env_off quiet_input HttpFailed =
     Inr (Decision \<lparr>d_symbol = ''BTC-USD'', d_action = hold, d_confidence = 21 / 2000,
        d_sizeUsd = 0, d_regime = \<lparr>highVol = False, trending = False, liquid = False\<rparr>,
        d_stops = \<lparr>stopLoss = 99, takeProfit = 102\<rparr>, d_llmDecision = LlmNull\<rparr>)
   \<and> computeStops default_risk (lastCloseOf quiet_input) buy
        (Some (l_atr1 (localDecision default_risk quiet_input)))
      = \<lparr>stopLoss = 99, takeProfit = 102\<rparr>"
  using hold_decision_has_buy_stops [OF decideTrade_quiet_off]
  by (simp add: decideTrade_quiet_off result_stops_def)

end
